theory Spec2Isabelle
  imports Complex_Main
begin

section \<open>Laplace-Beltrami spectrum of a triangle mesh (lbo.py)\<close>

text \<open>
  A shallow embedding of \<^verbatim>\<open>mindboggle/shapes/laplace_beltrami/lbo.py\<close>.
  The area stage computes in float64 as the source does: every operation rounds, and
  overflow and invalid operations give infinities and NaN. The assembly of the matrices
  is idealised to exact sums and quotients of finite values. The coordinates are finite
  values. Vertex and face indices are natural numbers, so Python's wrap-around of
  negative indices is excluded by the types.
\<close>

subsection \<open>Numbers\<close>

text \<open>
  A float64 value: a finite value (a real number that a double represents), an infinity
  or NaN. The sign of a zero is not kept.
\<close>

datatype npfloat = Fin real | PInf | NInf | NaN

subsubsection \<open>Rounding\<close>

text \<open>
  IEEE 754 binary64, round to nearest with ties to even: 53 significant bits, gradual
  underflow below \<open>pow2 (- 1022)\<close>, overflow to an infinity from \<open>pow2 1024\<close> on.
\<close>

definition pow2 :: "int \<Rightarrow> real" where
  "pow2 k = (if 0 \<le> k then 2 ^ nat k else 1 / 2 ^ nat (- k))"

definition round_even :: "real \<Rightarrow> int" where
  "round_even y =
     (let f = \<lfloor>y\<rfloor>; r = y - of_int f
      in if r < 1 / 2 then f else if 1 / 2 < r then f + 1 else if even f then f else f + 1)"

text \<open>The exponent of a non-zero real, not below that of the subnormal numbers.\<close>

definition exponent :: "real \<Rightarrow> int" where
  "exponent x = max \<lfloor>log 2 \<bar>x\<bar>\<rfloor> (- 1022)"

definition fl :: "real \<Rightarrow> npfloat" where
  "fl x =
     (if x = 0 then Fin 0
      else let u = pow2 (exponent x - 52);
               y = of_int (round_even (x / u)) * u
           in if pow2 1024 \<le> \<bar>y\<bar> then (if 0 < x then PInf else NInf) else Fin y)"

subsubsection \<open>The operations of the area stage\<close>

text \<open>
  \<^verbatim>\<open>-x\<close>, \<^verbatim>\<open>x + y\<close>, \<^verbatim>\<open>x - y\<close>, \<^verbatim>\<open>x * y\<close>, \<^verbatim>\<open>x / 2.0\<close> and \<^verbatim>\<open>np.sqrt(x)\<close> on float64
  scalars: the exact result, rounded. An overflow or an invalid operation gives an
  infinity or NaN and a warning, never an exception.
\<close>

fun fneg :: "npfloat \<Rightarrow> npfloat" where
  "fneg (Fin a) = Fin (- a)"
| "fneg PInf = NInf"
| "fneg NInf = PInf"
| "fneg NaN = NaN"

fun fadd :: "npfloat \<Rightarrow> npfloat \<Rightarrow> npfloat" where
  "fadd (Fin a) (Fin b) = fl (a + b)"
| "fadd NaN y = NaN"
| "fadd x NaN = NaN"
| "fadd PInf NInf = NaN"
| "fadd NInf PInf = NaN"
| "fadd PInf y = PInf"
| "fadd NInf y = NInf"
| "fadd x PInf = PInf"
| "fadd x NInf = NInf"

definition fsub :: "npfloat \<Rightarrow> npfloat \<Rightarrow> npfloat" where
  "fsub x y = fadd x (fneg y)"

fun fmul :: "npfloat \<Rightarrow> npfloat \<Rightarrow> npfloat" where
  "fmul (Fin a) (Fin b) = fl (a * b)"
| "fmul NaN y = NaN"
| "fmul x NaN = NaN"
| "fmul (Fin a) y = (if a = 0 then NaN else if 0 < a then y else fneg y)"
| "fmul x (Fin b) = (if b = 0 then NaN else if 0 < b then x else fneg x)"
| "fmul PInf y = y"
| "fmul NInf y = fneg y"

fun fhalf :: "npfloat \<Rightarrow> npfloat" where
  "fhalf (Fin a) = fl (a / 2)"
| "fhalf x = x"

text \<open>\<^verbatim>\<open>np.sqrt\<close>: NaN (and a warning, no exception) on a negative argument.\<close>

fun np_sqrt :: "npfloat \<Rightarrow> npfloat" where
  "np_sqrt (Fin a) = (if a < 0 then NaN else fl (sqrt a))"
| "np_sqrt PInf = PInf"
| "np_sqrt NInf = NaN"
| "np_sqrt NaN = NaN"

subsubsection \<open>The operations of the matrix stage\<close>

text \<open>
  The sums, differences and quotients by which the matrices are assembled are taken
  exact on finite values: what is modelled there is which entries are combined, not
  how their sums round. Infinities and NaN combine as in float64.
\<close>

instantiation npfloat :: "{comm_monoid_add, minus}"
begin

definition zero_npfloat :: npfloat where
  "zero_npfloat = Fin 0"

definition plus_npfloat :: "npfloat \<Rightarrow> npfloat \<Rightarrow> npfloat" where
  "plus_npfloat x y =
     (case x of
        NaN \<Rightarrow> NaN
      | Fin a \<Rightarrow> (case y of Fin b \<Rightarrow> Fin (a + b) | PInf \<Rightarrow> PInf | NInf \<Rightarrow> NInf | NaN \<Rightarrow> NaN)
      | PInf \<Rightarrow> (case y of Fin b \<Rightarrow> PInf | PInf \<Rightarrow> PInf | NInf \<Rightarrow> NaN | NaN \<Rightarrow> NaN)
      | NInf \<Rightarrow> (case y of Fin b \<Rightarrow> NInf | PInf \<Rightarrow> NaN | NInf \<Rightarrow> NInf | NaN \<Rightarrow> NaN))"

definition minus_npfloat :: "npfloat \<Rightarrow> npfloat \<Rightarrow> npfloat" where
  "minus_npfloat x y = x + fneg y"

instance
proof
  fix a b c :: npfloat
  show "a + b + c = a + (b + c)"
    by (simp add: plus_npfloat_def split: npfloat.splits)
  show "a + b = b + a"
    by (simp add: plus_npfloat_def split: npfloat.splits)
  show "0 + a = a"
    by (simp add: plus_npfloat_def zero_npfloat_def split: npfloat.splits)
qed

end

text \<open>
  Division of a float by a Python number literal (2, 3, 6 and 12 in the source, all
  positive).
\<close>

fun np_div :: "npfloat \<Rightarrow> real \<Rightarrow> npfloat" where
  "np_div (Fin a) c = Fin (a / c)"
| "np_div x c = x"

text \<open>Python's \<^verbatim>\<open>sum(xs)\<close>: starts at 0 and adds from the left.\<close>

definition py_sum :: "npfloat list \<Rightarrow> npfloat" where
  "py_sum xs = foldl (+) 0 xs"

text \<open>
  The elements of the result array: a complex number, or the non-finite value that
  \<^verbatim>\<open>1/eigenvalues\<close> holds where an eigenvalue is zero (numpy warns and stores inf/nan).
\<close>

datatype npcomplex = CFin complex | CNonFinite

definition np_reciprocal :: "complex \<Rightarrow> npcomplex" where
  "np_reciprocal x = (if x = 0 then CNonFinite else CFin (1 / x))"

subsection \<open>Exceptions\<close>

datatype error = IndexError | KeyError | ValueError | ArpackError

fun bind_err :: "error + 'a \<Rightarrow> ('a \<Rightarrow> error + 'b) \<Rightarrow> error + 'b" where
  "bind_err (Inl e) f = Inl e"
| "bind_err (Inr x) f = f x"

text \<open>A list comprehension whose element expression may raise: the first exception wins.\<close>

fun mapM_err :: "('a \<Rightarrow> error + 'b) \<Rightarrow> 'a list \<Rightarrow> error + 'b list" where
  "mapM_err f [] = Inr []"
| "mapM_err f (x # xs) =
     bind_err (f x) (\<lambda>y. bind_err (mapM_err f xs) (\<lambda>ys. Inr (y # ys)))"

text \<open>\<^verbatim>\<open>xs[i]\<close> on a list or a 1-D array.\<close>

definition nth_err :: "'a list \<Rightarrow> nat \<Rightarrow> error + 'a" where
  "nth_err xs i = (if i < length xs then Inr (xs ! i) else Inl IndexError)"

subsection \<open>Matrices\<close>

text \<open>
  A matrix is the list of its rows. A scipy \<^verbatim>\<open>lil_matrix\<close> is represented by its
  content, the entries that are not stored being the zeros they stand for, so that
  \<^verbatim>\<open>toarray\<close> changes nothing.
\<close>

type_synonym matrix = "npfloat list list"

definition lil_matrix :: "nat \<Rightarrow> nat \<Rightarrow> matrix" where
  "lil_matrix r c = replicate r (replicate c 0)"

definition toarray :: "matrix \<Rightarrow> matrix" where
  "toarray M = M"

text \<open>\<^verbatim>\<open>M[i,j]\<close>\<close>

definition getitem :: "matrix \<Rightarrow> nat \<Rightarrow> nat \<Rightarrow> error + npfloat" where
  "getitem M i j = (if i < length M \<and> j < length (M ! i) then Inr (M ! i ! j) else Inl IndexError)"

text \<open>\<^verbatim>\<open>M[i,j] = v\<close>\<close>

definition setitem :: "matrix \<Rightarrow> nat \<Rightarrow> nat \<Rightarrow> npfloat \<Rightarrow> error + matrix" where
  "setitem M i j v =
     (if i < length M \<and> j < length (M ! i) then Inr (M[i := (M ! i)[j := v]]) else Inl IndexError)"

text \<open>
  \<^verbatim>\<open>M.setdiag(v)\<close>: diagonal entries beyond the end of \<open>v\<close> are left alone, values
  beyond the end of the diagonal are ignored.
\<close>

definition setdiag :: "matrix \<Rightarrow> npfloat list \<Rightarrow> matrix" where
  "setdiag M v =
     map (\<lambda>i. if i < length v \<and> i < length (M ! i) then (M ! i)[i := v ! i] else M ! i)
       [0..<length M]"

text \<open>\<^verbatim>\<open>M / c\<close> and \<^verbatim>\<open>M /= c\<close>\<close>

definition mat_div :: "matrix \<Rightarrow> real \<Rightarrow> matrix" where
  "mat_div M c = map (map (\<lambda>x. np_div x c)) M"

text \<open>\<^verbatim>\<open>A - B\<close> and \<^verbatim>\<open>A + B\<close>: the shapes must agree.\<close>

definition mat_sub :: "matrix \<Rightarrow> matrix \<Rightarrow> error + matrix" where
  "mat_sub A B =
     (if map length A = map length B then Inr (map2 (map2 (-)) A B) else Inl ValueError)"

definition mat_add :: "matrix \<Rightarrow> matrix \<Rightarrow> error + matrix" where
  "mat_add A B =
     (if map length A = map length B then Inr (map2 (map2 (+)) A B) else Inl ValueError)"

subsection \<open>Mesh data and the external collaborators\<close>

type_synonym vec3 = "real \<times> real \<times> real"
type_synonym face = "nat \<times> nat \<times> nat"

text \<open>
  The functions of \<^verbatim>\<open>mindboggle.utils.kernels\<close>, \<^verbatim>\<open>mindboggle.utils.mesh\<close> and
  \<^verbatim>\<open>scipy.sparse.linalg\<close> that lbo.py imports are not part of the file; they are
  parameters of the model. The mesh utilities are taken to return a value; the solver
  may raise (no convergence, a singular mass matrix).
\<close>

record providers =
  cotangent_kernel :: "vec3 list \<Rightarrow> face list \<Rightarrow> matrix"
  find_neighbors :: "face list \<Rightarrow> nat \<Rightarrow> nat list list"
  find_faces_at_vertices :: "face list \<Rightarrow> nat \<Rightarrow> nat list list"
  find_faces_at_edges :: "face list \<Rightarrow> (nat \<times> nat) \<Rightarrow> nat list option"
  find_edges :: "face list \<Rightarrow> (nat \<times> nat) list"
  eigs :: "matrix \<Rightarrow> nat \<Rightarrow> matrix \<Rightarrow> error + complex list"

subsection \<open>gen\_V (lines 44-69)\<close>

definition gen_V :: "face list \<Rightarrow> matrix \<Rightarrow> nat list list \<Rightarrow> error + matrix" where
  "gen_V Meshes W Neighbor =
     (let num_nodes = length W;
          V = lil_matrix num_nodes num_nodes
      in bind_err
           (mapM_err
              (\<lambda>i. bind_err (nth_err Neighbor i)
                     (\<lambda>Ni. bind_err (mapM_err (\<lambda>j. getitem W i j) Ni)
                             (\<lambda>ws. Inr (py_sum ws))))
              [0..<num_nodes])
           (\<lambda>v. Inr (mat_div (setdiag V v) 3)))"

subsection \<open>area (lines 71-103)\<close>

text \<open>\<^verbatim>\<open>Nodes[i] - Nodes[j]\<close>: the difference of two rows, coordinate by coordinate.\<close>

definition vsub :: "vec3 \<Rightarrow> vec3 \<Rightarrow> npfloat \<times> npfloat \<times> npfloat" where
  "vsub u v =
     (case u of (x, y, z) \<Rightarrow> (case v of (x', y', z') \<Rightarrow> (fl (x - x'), fl (y - y'), fl (z - z'))))"

text \<open>
  \<^verbatim>\<open>np.linalg.norm\<close> of a vector, in the numpy of the source's time
  \<^verbatim>\<open>sqrt(add.reduce(x * x))\<close>: the squares, summed from the left, and the root.
\<close>

definition linalg_norm :: "npfloat \<times> npfloat \<times> npfloat \<Rightarrow> npfloat" where
  "linalg_norm v = (case v of (x, y, z) \<Rightarrow> np_sqrt (fadd (fadd (fmul x x) (fmul y y)) (fmul z z)))"

text \<open>Lines 99-101: Heron's formula on the three side lengths, evaluated from the left.\<close>

definition heron :: "npfloat \<Rightarrow> npfloat \<Rightarrow> npfloat \<Rightarrow> npfloat" where
  "heron a b c =
     (let s = fhalf (fadd (fadd a b) c)
      in np_sqrt (fmul (fmul (fmul s (fsub s a)) (fsub s b)) (fsub s c)))"

text \<open>The body of the loop for one triangle (lines 96-101).\<close>

definition triangle_area :: "vec3 list \<Rightarrow> face \<Rightarrow> error + npfloat" where
  "triangle_area Nodes Triangle =
     (case Triangle of (t0, t1, t2) \<Rightarrow>
        bind_err (nth_err Nodes t0) (\<lambda>p0.
        bind_err (nth_err Nodes t1) (\<lambda>p1.
        bind_err (nth_err Nodes t2) (\<lambda>p2.
          (let a = linalg_norm (vsub p0 p1);
               b = linalg_norm (vsub p1 p2);
               c = linalg_norm (vsub p2 p0)
           in Inr (heron a b c))))))"

text \<open>The loop: \<open>Area\<close> is the array being filled, \<open>i\<close> the running index.\<close>

fun area_loop :: "vec3 list \<Rightarrow> face list \<Rightarrow> npfloat list \<Rightarrow> nat \<Rightarrow> error + npfloat list" where
  "area_loop Nodes [] Area i = Inr Area"
| "area_loop Nodes (Triangle # rest) Area i =
     bind_err (triangle_area Nodes Triangle)
       (\<lambda>x. if i < length Area then area_loop Nodes rest (Area[i := x]) (i + 1)
            else Inl IndexError)"

definition area :: "vec3 list \<Rightarrow> face list \<Rightarrow> error + npfloat list" where
  "area Nodes Meshes = area_loop Nodes Meshes (replicate (length Meshes) 0) 0"

subsection \<open>The stiffness matrix (lines 189-190 and 305-306)\<close>

text \<open>
  Both pipelines hold the same two statements, \<^verbatim>\<open>V = gen_V(Faces, W, Neighbor)\<close> and
  \<^verbatim>\<open>A = V - W\<close>.
\<close>

definition stiffness :: "face list \<Rightarrow> matrix \<Rightarrow> nat list list \<Rightarrow> error + matrix" where
  "stiffness Faces W Neighbor = bind_err (gen_V Faces W Neighbor) (\<lambda>V. mat_sub V W)"

subsection \<open>geometric\_laplacian (lines 105-206)\<close>

definition masses :: "vec3 list \<Rightarrow> npfloat list \<Rightarrow> nat list list \<Rightarrow> error + matrix" where
  "masses Nodes Areas Faces_at_Nodes =
     (let num_nodes = length Nodes
      in bind_err
           (mapM_err
              (\<lambda>i. bind_err (nth_err Faces_at_Nodes i)
                     (\<lambda>Fi. bind_err (mapM_err (\<lambda>j. nth_err Areas j) Fi)
                             (\<lambda>as. Inr (py_sum as))))
              [0..<num_nodes])
           (\<lambda>d. let D = lil_matrix num_nodes num_nodes;
                    D = setdiag D d;
                    D = mat_div D 3
                in Inr D))"

definition sentinel :: "npcomplex list" where
  "sentinel = [CFin (- 1), CFin (- 1), CFin (- 1), CFin (- 1), CFin (- 1)]"

definition too_small_message :: string where
  "too_small_message = ''The input size is too small. Skipped.''"

text \<open>Lines 203-206 and 328-331: the solver is asked for \<open>k = 3\<close>.\<close>

definition solve_and_invert :: "providers \<Rightarrow> matrix \<Rightarrow> matrix \<Rightarrow> error + npcomplex list" where
  "solve_and_invert env A M =
     bind_err (eigs env A 3 M) (\<lambda>eigenvalues. Inr (map np_reciprocal eigenvalues))"

text \<open>
  The result is the list of lines printed and either the exception raised or the
  array returned.
\<close>

definition geometric_laplacian ::
  "providers \<Rightarrow> vec3 list \<Rightarrow> face list \<Rightarrow> string list \<times> (error + npcomplex list)" where
  "geometric_laplacian env Nodes Faces =
     (let num_nodes = length Nodes
      in if num_nodes < 5 then ([too_small_message], Inr sentinel)
         else ([],
           (let W = cotangent_kernel env Nodes Faces;
                W = mat_div W 2;
                Neighbor = find_neighbors env Faces num_nodes
            in bind_err (stiffness Faces W Neighbor) (\<lambda>A.
               bind_err (area Nodes Faces) (\<lambda>Area.
               (let Faces_at_Nodes = find_faces_at_vertices env Faces num_nodes
                in bind_err (masses Nodes Area Faces_at_Nodes) (\<lambda>D.
                   (let D = toarray D
                    in solve_and_invert env A D))))))))"

subsection \<open>fem\_laplacian (lines 208-331)\<close>

text \<open>The loop of \<open>gen_P\<close> over the edges (lines 266-267).\<close>

fun gen_P_loop ::
  "(nat \<times> nat) list \<Rightarrow> ((nat \<times> nat) \<Rightarrow> nat list option) \<Rightarrow> npfloat list \<Rightarrow> matrix \<Rightarrow> error + matrix"
  where
  "gen_P_loop [] faces_at_edges Area P = Inr P"
| "gen_P_loop ((i, j) # rest) faces_at_edges Area P =
     (case faces_at_edges (i, j) of
        None \<Rightarrow> Inl KeyError
      | Some fs \<Rightarrow>
          bind_err (mapM_err (\<lambda>face. nth_err Area face) fs) (\<lambda>as.
          bind_err (setitem P i j (py_sum as)) (\<lambda>P'.
            gen_P_loop rest faces_at_edges Area P')))"

definition gen_P ::
  "(nat \<times> nat) list \<Rightarrow> ((nat \<times> nat) \<Rightarrow> nat list option) \<Rightarrow> npfloat list \<Rightarrow> nat \<Rightarrow> error + matrix"
  where
  "gen_P edges faces_at_edges Area num_nodes =
     bind_err (gen_P_loop edges faces_at_edges Area (lil_matrix num_nodes num_nodes))
       (\<lambda>P. Inr (mat_div P 12))"

definition gen_Q ::
  "(nat \<times> nat) list \<Rightarrow> ((nat \<times> nat) \<Rightarrow> nat list option) \<Rightarrow> npfloat list \<Rightarrow> nat \<Rightarrow>
     nat list list \<Rightarrow> nat list list \<Rightarrow> error + matrix" where
  "gen_Q edges faces_at_edges Area num_nodes Neighbor Faces_at_Nodes =
     (let Q = lil_matrix num_nodes num_nodes
      in bind_err
           (mapM_err
              (\<lambda>i. bind_err (nth_err Faces_at_Nodes i)
                     (\<lambda>Fi. bind_err (mapM_err (\<lambda>k. nth_err Area k) Fi)
                             (\<lambda>as. Inr (py_sum as))))
              [0..<num_nodes])
           (\<lambda>q. Inr (mat_div (setdiag Q q) 6)))"

text \<open>Lines 315-318: \<open>P\<close>, \<open>Q\<close>, \<^verbatim>\<open>B = P + Q\<close> and \<^verbatim>\<open>B = B.toarray()\<close>.\<close>

definition fem_mass ::
  "(nat \<times> nat) list \<Rightarrow> ((nat \<times> nat) \<Rightarrow> nat list option) \<Rightarrow> npfloat list \<Rightarrow> nat \<Rightarrow>
     nat list list \<Rightarrow> nat list list \<Rightarrow> error + matrix" where
  "fem_mass edges faces_at_edges Area num_nodes Neighbor Faces_at_Nodes =
     bind_err (gen_P edges faces_at_edges Area num_nodes) (\<lambda>P.
     bind_err (gen_Q edges faces_at_edges Area num_nodes Neighbor Faces_at_Nodes) (\<lambda>Q.
     bind_err (mat_add P Q) (\<lambda>B. Inr (toarray B))))"

definition fem_laplacian ::
  "providers \<Rightarrow> vec3 list \<Rightarrow> face list \<Rightarrow> string list \<times> (error + npcomplex list)" where
  "fem_laplacian env Nodes Faces =
     (let num_nodes = length Nodes
      in if num_nodes < 5 then ([too_small_message], Inr sentinel)
         else ([],
           (let W = cotangent_kernel env Nodes Faces;
                W = mat_div W 2;
                Neighbor = find_neighbors env Faces num_nodes
            in bind_err (stiffness Faces W Neighbor) (\<lambda>A.
               bind_err (area Nodes Faces) (\<lambda>Area.
               (let Faces_at_Nodes = find_faces_at_vertices env Faces num_nodes;
                    faces_at_edges = find_faces_at_edges env Faces;
                    edges = find_edges env Faces
                in bind_err (fem_mass edges faces_at_edges Area num_nodes Neighbor Faces_at_Nodes) (\<lambda>B.
                   (let A = toarray A
                    in solve_and_invert env A B))))))))"

section \<open>Well-formed inputs\<close>

text \<open>
  The shapes and index ranges under which no statement of the pipelines raises: the
  weight matrix is \<open>n \<times> n\<close>, and every index that the collaborators hand over is
  in range.
\<close>

definition square_matrix :: "nat \<Rightarrow> matrix \<Rightarrow> bool" where
  "square_matrix n M \<longleftrightarrow> length M = n \<and> (\<forall>row \<in> set M. length row = n)"

definition neighbors_ok :: "nat \<Rightarrow> nat list list \<Rightarrow> bool" where
  "neighbors_ok n Neighbor \<longleftrightarrow>
     n \<le> length Neighbor \<and> (\<forall>i \<in> set [0..<n]. \<forall>j \<in> set (Neighbor ! i). j < n)"

definition faces_ok :: "nat \<Rightarrow> face list \<Rightarrow> bool" where
  "faces_ok n Faces \<longleftrightarrow> (\<forall>(t0, t1, t2) \<in> set Faces. t0 < n \<and> t1 < n \<and> t2 < n)"

definition incident_ok :: "nat \<Rightarrow> nat \<Rightarrow> nat list list \<Rightarrow> bool" where
  "incident_ok n m Faces_at_Nodes \<longleftrightarrow>
     n \<le> length Faces_at_Nodes \<and> (\<forall>i \<in> set [0..<n]. \<forall>f \<in> set (Faces_at_Nodes ! i). f < m)"

definition edges_ok ::
  "nat \<Rightarrow> nat \<Rightarrow> (nat \<times> nat) list \<Rightarrow> ((nat \<times> nat) \<Rightarrow> nat list option) \<Rightarrow> bool" where
  "edges_ok n m edges faces_at_edges \<longleftrightarrow>
     (\<forall>(i, j) \<in> set edges. i < n \<and> j < n \<and>
        (case faces_at_edges (i, j) of None \<Rightarrow> False | Some fs \<Rightarrow> \<forall>f \<in> set fs. f < m))"

section \<open>The matrices as the specification words them\<close>

text \<open>
  Entry by entry, following the data model of the specification; the theorems below
  compare them with what the source functions assemble.
\<close>

definition diag_spec :: "nat \<Rightarrow> (nat \<Rightarrow> npfloat) \<Rightarrow> matrix" where
  "diag_spec n d = map (\<lambda>i. map (\<lambda>j. if i = j then d i else 0) [0..<n]) [0..<n]"

definition V_spec :: "matrix \<Rightarrow> nat list list \<Rightarrow> matrix" where
  "V_spec W Neighbor =
     diag_spec (length W) (\<lambda>i. np_div (sum_list (map (\<lambda>j. W ! i ! j) (Neighbor ! i))) 3)"

definition A_spec :: "matrix \<Rightarrow> nat list list \<Rightarrow> matrix" where
  "A_spec W Neighbor =
     map (\<lambda>i. map (\<lambda>j. (if i = j then np_div (sum_list (map (\<lambda>k. W ! i ! k) (Neighbor ! i))) 3 else 0)
                         - W ! i ! j) [0..<length W]) [0..<length W]"

definition side :: "vec3 list \<Rightarrow> nat \<Rightarrow> nat \<Rightarrow> npfloat" where
  "side Nodes i j = linalg_norm (vsub (Nodes ! i) (Nodes ! j))"

definition area_spec :: "vec3 list \<Rightarrow> face list \<Rightarrow> npfloat list" where
  "area_spec Nodes Faces =
     map (\<lambda>(t0, t1, t2). heron (side Nodes t0 t1) (side Nodes t1 t2) (side Nodes t2 t0)) Faces"

definition D_spec :: "nat \<Rightarrow> npfloat list \<Rightarrow> nat list list \<Rightarrow> matrix" where
  "D_spec n Areas Faces_at_Nodes =
     diag_spec n (\<lambda>i. np_div (sum_list (map (\<lambda>f. Areas ! f) (Faces_at_Nodes ! i))) 3)"

definition Q_spec :: "nat \<Rightarrow> npfloat list \<Rightarrow> nat list list \<Rightarrow> matrix" where
  "Q_spec n Areas Faces_at_Nodes =
     diag_spec n (\<lambda>i. np_div (sum_list (map (\<lambda>f. Areas ! f) (Faces_at_Nodes ! i))) 6)"

definition edge_area_sum :: "((nat \<times> nat) \<Rightarrow> nat list option) \<Rightarrow> npfloat list \<Rightarrow> nat \<Rightarrow> nat \<Rightarrow> npfloat" where
  "edge_area_sum faces_at_edges Areas i j =
     (case faces_at_edges (i, j) of None \<Rightarrow> 0 | Some fs \<Rightarrow> sum_list (map (\<lambda>f. Areas ! f) fs))"

definition P_entry ::
  "(nat \<times> nat) list \<Rightarrow> ((nat \<times> nat) \<Rightarrow> nat list option) \<Rightarrow> npfloat list \<Rightarrow> nat \<Rightarrow> nat \<Rightarrow> npfloat" where
  "P_entry edges faces_at_edges Areas i j =
     (if (i, j) \<in> set edges then np_div (edge_area_sum faces_at_edges Areas i j) 12 else 0)"

definition Q_entry :: "npfloat list \<Rightarrow> nat list list \<Rightarrow> nat \<Rightarrow> nat \<Rightarrow> npfloat" where
  "Q_entry Areas Faces_at_Nodes i j =
     (if i = j then np_div (sum_list (map (\<lambda>f. Areas ! f) (Faces_at_Nodes ! i))) 6 else 0)"

definition P_spec ::
  "nat \<Rightarrow> (nat \<times> nat) list \<Rightarrow> ((nat \<times> nat) \<Rightarrow> nat list option) \<Rightarrow> npfloat list \<Rightarrow> matrix" where
  "P_spec n edges faces_at_edges Areas =
     map (\<lambda>i. map (\<lambda>j. P_entry edges faces_at_edges Areas i j) [0..<n]) [0..<n]"

definition B_spec ::
  "nat \<Rightarrow> (nat \<times> nat) list \<Rightarrow> ((nat \<times> nat) \<Rightarrow> nat list option) \<Rightarrow> npfloat list \<Rightarrow>
     nat list list \<Rightarrow> matrix" where
  "B_spec n edges faces_at_edges Areas Faces_at_Nodes =
     map (\<lambda>i. map (\<lambda>j. P_entry edges faces_at_edges Areas i j + Q_entry Areas Faces_at_Nodes i j)
       [0..<n]) [0..<n]"

text \<open>Half of a value, and the matrix of the halves.\<close>

definition half_spec :: "npfloat \<Rightarrow> npfloat" where
  "half_spec x = (case x of Fin a \<Rightarrow> Fin (a / 2) | PInf \<Rightarrow> PInf | NInf \<Rightarrow> NInf | NaN \<Rightarrow> NaN)"

definition halved_spec :: "matrix \<Rightarrow> matrix" where
  "halved_spec M = map (map half_spec) M"

subsection \<open>The pipelines' inputs and operands\<close>

text \<open>What each pipeline needs of the mesh and of the collaborators' outputs.\<close>

definition wf_geo :: "providers \<Rightarrow> vec3 list \<Rightarrow> face list \<Rightarrow> bool" where
  "wf_geo env Nodes Faces \<longleftrightarrow>
     (let n = length Nodes
      in 5 \<le> n \<and>
         square_matrix n (cotangent_kernel env Nodes Faces) \<and>
         neighbors_ok n (find_neighbors env Faces n) \<and>
         faces_ok n Faces \<and>
         incident_ok n (length Faces) (find_faces_at_vertices env Faces n))"

definition wf_fem :: "providers \<Rightarrow> vec3 list \<Rightarrow> face list \<Rightarrow> bool" where
  "wf_fem env Nodes Faces \<longleftrightarrow>
     wf_geo env Nodes Faces \<and>
     edges_ok (length Nodes) (length Faces) (find_edges env Faces) (find_faces_at_edges env Faces)"

text \<open>The operands that the pipelines hand to the solver.\<close>

definition stiffness_of :: "providers \<Rightarrow> vec3 list \<Rightarrow> face list \<Rightarrow> matrix" where
  "stiffness_of env Nodes Faces =
     A_spec (mat_div (cotangent_kernel env Nodes Faces) 2) (find_neighbors env Faces (length Nodes))"

definition geo_mass_of :: "providers \<Rightarrow> vec3 list \<Rightarrow> face list \<Rightarrow> matrix" where
  "geo_mass_of env Nodes Faces =
     D_spec (length Nodes) (area_spec Nodes Faces) (find_faces_at_vertices env Faces (length Nodes))"

definition fem_mass_of :: "providers \<Rightarrow> vec3 list \<Rightarrow> face list \<Rightarrow> matrix" where
  "fem_mass_of env Nodes Faces =
     B_spec (length Nodes) (find_edges env Faces) (find_faces_at_edges env Faces)
       (area_spec Nodes Faces) (find_faces_at_vertices env Faces (length Nodes))"

section \<open>An example mesh\<close>

text \<open>
  Four 3-4-5 right triangles around vertex 4, with the adjacency tables of that mesh; the
  edges are listed once each, in the orientation of the first face that has them. The
  weights are the sums of the cotangents of the angles opposite each edge. The solver is
  a stand-in that returns \<open>1, \<dots>, k\<close>.
\<close>

definition demo_nodes :: "vec3 list" where
  "demo_nodes = [(3, 0, 0), (0, 4, 0), (- 3, 0, 0), (0, - 4, 0), (0, 0, 0)]"

definition demo_faces :: "face list" where
  "demo_faces = [(0, 1, 4), (1, 2, 4), (2, 3, 4), (3, 0, 4)]"

definition demo_W :: matrix where
  "demo_W =
     [[Fin 0, Fin 0, Fin 0, Fin 0, Fin (8 / 3)],
      [Fin 0, Fin 0, Fin 0, Fin 0, Fin (3 / 2)],
      [Fin 0, Fin 0, Fin 0, Fin 0, Fin (8 / 3)],
      [Fin 0, Fin 0, Fin 0, Fin 0, Fin (3 / 2)],
      [Fin (8 / 3), Fin (3 / 2), Fin (8 / 3), Fin (3 / 2), Fin 0]]"

definition demo_neighbors :: "nat list list" where
  "demo_neighbors = [[1, 3, 4], [0, 2, 4], [1, 3, 4], [0, 2, 4], [0, 1, 2, 3]]"

definition demo_faces_at_nodes :: "nat list list" where
  "demo_faces_at_nodes = [[0, 3], [0, 1], [1, 2], [2, 3], [0, 1, 2, 3]]"

definition demo_edges :: "(nat \<times> nat) list" where
  "demo_edges = [(0, 1), (1, 4), (0, 4), (1, 2), (2, 4), (2, 3), (3, 4), (3, 0)]"

definition demo_faces_at_edges :: "(nat \<times> nat) \<Rightarrow> nat list option" where
  "demo_faces_at_edges =
     map_of [((0, 1), [0]), ((1, 0), [0]), ((1, 4), [0, 1]), ((4, 1), [0, 1]),
             ((0, 4), [0, 3]), ((4, 0), [0, 3]), ((1, 2), [1]), ((2, 1), [1]),
             ((2, 4), [1, 2]), ((4, 2), [1, 2]), ((2, 3), [2]), ((3, 2), [2]),
             ((3, 4), [2, 3]), ((4, 3), [2, 3]), ((3, 0), [3]), ((0, 3), [3])]"

definition demo_eigs :: "matrix \<Rightarrow> nat \<Rightarrow> matrix \<Rightarrow> error + complex list" where
  "demo_eigs A k M = Inr (map of_nat [1..<Suc k])"

definition demo_env :: providers where
  "demo_env =
     \<lparr>cotangent_kernel = (\<lambda>Nodes Faces. demo_W),
      find_neighbors = (\<lambda>Faces n. demo_neighbors),
      find_faces_at_vertices = (\<lambda>Faces n. demo_faces_at_nodes),
      find_faces_at_edges = (\<lambda>Faces. demo_faces_at_edges),
      find_edges = (\<lambda>Faces. demo_edges),
      eigs = demo_eigs\<rparr>"

text \<open>The areas of the four faces of the example mesh, and its FEM mass matrix.\<close>

definition demo_areas :: "npfloat list" where
  "demo_areas = [Fin 6, Fin 6, Fin 6, Fin 6]"

definition demo_B :: matrix where
  "demo_B =
     [[Fin 2, Fin (1 / 2), Fin 0, Fin 0, Fin 1],
      [Fin 0, Fin 2, Fin (1 / 2), Fin 0, Fin 1],
      [Fin 0, Fin 0, Fin 2, Fin (1 / 2), Fin 1],
      [Fin (1 / 2), Fin 0, Fin 0, Fin 2, Fin 1],
      [Fin 0, Fin 0, Fin 0, Fin 0, Fin 4]]"

section \<open>Notions and examples of the claims about the area\<close>

text \<open>Heron's radicand as the source computes it.\<close>

definition heron_radicand :: "npfloat \<Rightarrow> npfloat \<Rightarrow> npfloat \<Rightarrow> npfloat" where
  "heron_radicand a b c =
     (let s = fhalf (fadd (fadd a b) c)
      in fmul (fmul (fmul s (fsub s a)) (fsub s b)) (fsub s c))"

text \<open>Translations and linear maps of the coordinates, in exact arithmetic.\<close>

definition vadd :: "vec3 \<Rightarrow> vec3 \<Rightarrow> vec3" where
  "vadd d v = (case d of (dx, dy, dz) \<Rightarrow> (case v of (x, y, z) \<Rightarrow> (x + dx, y + dy, z + dz)))"

type_synonym mat3 = "vec3 \<times> vec3 \<times> vec3"

definition mat_vec :: "mat3 \<Rightarrow> vec3 \<Rightarrow> vec3" where
  "mat_vec R v =
     (case R of ((a11, a12, a13), (a21, a22, a23), (a31, a32, a33)) \<Rightarrow>
        (case v of (x, y, z) \<Rightarrow>
           (a11 * x + a12 * y + a13 * z, a21 * x + a22 * y + a23 * z, a31 * x + a32 * y + a33 * z)))"

text \<open>A rotation: \<open>R\<^sup>T R = I\<close> and \<open>det R = 1\<close>, written out.\<close>

definition rotation :: "mat3 \<Rightarrow> bool" where
  "rotation R \<longleftrightarrow>
     (case R of ((a11, a12, a13), (a21, a22, a23), (a31, a32, a33)) \<Rightarrow>
        a11 * a11 + a21 * a21 + a31 * a31 = 1 \<and>
        a12 * a12 + a22 * a22 + a32 * a32 = 1 \<and>
        a13 * a13 + a23 * a23 + a33 * a33 = 1 \<and>
        a11 * a12 + a21 * a22 + a31 * a32 = 0 \<and>
        a11 * a13 + a21 * a23 + a31 * a33 = 0 \<and>
        a12 * a13 + a22 * a23 + a32 * a33 = 0 \<and>
        a11 * (a22 * a33 - a23 * a32) - a12 * (a21 * a33 - a23 * a31)
          + a13 * (a21 * a32 - a22 * a31) = 1)"

text \<open>The rotation by a third of a turn about the diagonal: \<open>(x, y, z) \<mapsto> (y, z, x)\<close>.\<close>

definition axis_cycle :: mat3 where
  "axis_cycle = ((0, 1, 0), (0, 0, 1), (1, 0, 0))"

text \<open>Three collinear points, twice.\<close>

definition sliver_nodes :: "vec3 list" where
  "sliver_nodes = [(0, 0, 0), (1, 1, 1), (5, 5, 5)]"

definition needle_nodes :: "vec3 list" where
  "needle_nodes = [(0, 0, 0), (67108868, 2, 8193), (201326604, 6, 24579)]"

section \<open>Auxiliary facts\<close>

subsection \<open>Rounding\<close>

lemma pow2_powr: "pow2 k = 2 powr (of_int k)"
proof (cases "0 \<le> k")
  case True
  then show ?thesis
    by (simp add: pow2_def powr_realpow [symmetric])
next
  case False
  then have "(2::real) powr (of_int k) = 1 / 2 powr (of_int (- k))"
    by (simp add: powr_minus_divide)
  also have "\<dots> = 1 / 2 ^ nat (- k)"
    using False by (simp add: powr_realpow [symmetric])
  finally show ?thesis
    using False by (simp add: pow2_def)
qed

lemma pow2_pos [simp]: "0 < pow2 k"
  by (simp add: pow2_def)

lemma exponent_eqI:
  assumes "pow2 e \<le> \<bar>x\<bar>" "\<bar>x\<bar> < pow2 (e + 1)" "- 1022 \<le> e"
  shows "exponent x = e"
proof -
  have pos: "0 < \<bar>x\<bar>"
    using assms(1) pow2_pos [of e] by linarith
  have "\<lfloor>log 2 \<bar>x\<bar>\<rfloor> = e"
  proof (rule floor_unique)
    show "of_int e \<le> log 2 \<bar>x\<bar>"
      using assms(1) pos by (simp add: pow2_powr le_log_iff)
    show "log 2 \<bar>x\<bar> < of_int e + 1"
      using assms(2) pos by (simp add: pow2_powr log_less_iff add.commute)
  qed
  with assms(3) show ?thesis
    by (simp add: exponent_def)
qed

lemma exponent_subnormal:
  assumes "x \<noteq> 0" "\<bar>x\<bar> < pow2 (- 1022)"
  shows "exponent x = - 1022"
proof -
  have "log 2 \<bar>x\<bar> < of_int (- 1022)"
    using assms by (simp add: pow2_powr log_less_iff)
  then have "\<lfloor>log 2 \<bar>x\<bar>\<rfloor> < - 1022"
    by (simp add: floor_less_iff)
  then show ?thesis
    by (simp add: exponent_def)
qed

lemma round_even_near:
  assumes "\<bar>y - of_int m\<bar> < 1 / 2"
  shows "round_even y = m"
proof (cases "of_int m \<le> y")
  case True
  with assms have "\<lfloor>y\<rfloor> = m"
    by (intro floor_unique) linarith+
  with assms True show ?thesis
    by (simp add: round_even_def Let_def)
next
  case False
  from assms False have lo: "of_int m - 1 \<le> y" and hi: "y < of_int m"
    by linarith+
  have f: "\<lfloor>y\<rfloor> = m - 1"
    by (rule floor_unique) (use lo hi in simp_all)
  from assms False have "1 / 2 < y - of_int (m - 1)"
    by simp
  with f show ?thesis
    by (simp add: round_even_def Let_def)
qed

lemma round_even_tie:
  assumes "y = of_int m + 1 / 2"
  shows "round_even y = (if even m then m else m + 1)"
proof -
  from assms have "\<lfloor>y\<rfloor> = m"
    by (intro floor_unique) simp_all
  with assms show ?thesis
    by (simp add: round_even_def Let_def)
qed

lemma fl_eqI:
  assumes "pow2 e \<le> \<bar>x\<bar>" "\<bar>x\<bar> < pow2 (e + 1)" "- 1022 \<le> e"
    and "\<bar>x / pow2 (e - 52) - of_int m\<bar> < 1 / 2"
    and "q = of_int m * pow2 (e - 52)"
    and "\<bar>q\<bar> < pow2 1024"
  shows "fl x = Fin q"
proof -
  have "x \<noteq> 0"
    using less_le_trans [OF pow2_pos assms(1)] by simp
  moreover have "exponent x = e"
    by (rule exponent_eqI) fact+
  moreover have "round_even (x / pow2 (e - 52)) = m"
    by (rule round_even_near) fact
  ultimately show ?thesis
    using assms(5,6) by (simp add: fl_def Let_def)
qed

lemma fl_tieI:
  assumes "pow2 e \<le> \<bar>x\<bar>" "\<bar>x\<bar> < pow2 (e + 1)" "- 1022 \<le> e"
    and "x / pow2 (e - 52) = of_int m + 1 / 2"
    and "q = of_int (if even m then m else m + 1) * pow2 (e - 52)"
    and "\<bar>q\<bar> < pow2 1024"
  shows "fl x = Fin q"
proof -
  have "x \<noteq> 0"
    using less_le_trans [OF pow2_pos assms(1)] by simp
  moreover have "exponent x = e"
    by (rule exponent_eqI) fact+
  moreover have "round_even (x / pow2 (e - 52)) = (if even m then m else m + 1)"
    by (rule round_even_tie) fact
  ultimately show ?thesis
    using assms(5,6) by (simp add: fl_def Let_def del: of_int_add)
qed

lemma fl_zeroI: "x = 0 \<Longrightarrow> fl x = Fin 0"
  by (simp add: fl_def)

lemma fl_sqrt_eqI:
  assumes e: "pow2 e * pow2 e \<le> x" "x < pow2 (e + 1) * pow2 (e + 1)" "- 1022 \<le> e"
    and lo: "0 \<le> (of_int m - 1 / 2) * pow2 (e - 52)"
      "((of_int m - 1 / 2) * pow2 (e - 52)) * ((of_int m - 1 / 2) * pow2 (e - 52)) < x"
    and hi: "x < ((of_int m + 1 / 2) * pow2 (e - 52)) * ((of_int m + 1 / 2) * pow2 (e - 52))"
    and q: "q = of_int m * pow2 (e - 52)" "\<bar>q\<bar> < pow2 1024"
  shows "fl (sqrt x) = Fin q"
proof (rule fl_eqI [where e = e and m = m])
  let ?u = "pow2 (e - 52)"
  have u: "0 < ?u" by simp
  have x: "0 \<le> x"
    using e(1) by (meson mult_nonneg_nonneg order_trans pow2_pos less_imp_le)
  have "pow2 e \<le> sqrt x"
    using e(1) by (intro real_le_rsqrt) (simp add: power2_eq_square)
  then show "pow2 e \<le> \<bar>sqrt x\<bar>"
    by simp
  have "sqrt x < pow2 (e + 1)"
    using e(2) by (intro real_less_lsqrt) (simp_all add: power2_eq_square less_imp_le)
  then show "\<bar>sqrt x\<bar> < pow2 (e + 1)"
    using x by simp
  have l: "(of_int m - 1 / 2) * ?u < sqrt x"
    using lo(2) by (intro real_less_rsqrt) (simp add: power2_eq_square)
  have "0 \<le> (of_int m - 1 / 2 :: real)"
    using lo(1) u by (simp add: zero_le_mult_iff)
  then have "0 \<le> (of_int m + 1 / 2) * ?u"
    using less_imp_le [OF u] by (intro mult_nonneg_nonneg) simp_all
  then have h: "sqrt x < (of_int m + 1 / 2) * ?u"
    using hi by (intro real_less_lsqrt) (simp_all add: power2_eq_square)
  from l u have "of_int m - 1 / 2 < sqrt x / ?u"
    by (simp add: pos_less_divide_eq)
  moreover from h u have "sqrt x / ?u < of_int m + 1 / 2"
    by (simp add: pos_divide_less_eq)
  ultimately show "\<bar>sqrt x / ?u - of_int m\<bar> < 1 / 2"
    by linarith
qed (fact+)

lemma fl_sqrt_exactI:
  assumes "x = q * q" "0 \<le> q" "fl q = Fin q"
  shows "fl (sqrt x) = Fin q"
proof -
  have "sqrt x = q"
    using assms(1,2) by (intro real_sqrt_unique) (simp_all add: power2_eq_square)
  with assms(3) show ?thesis by simp
qed

lemma np_sqrt_eqI:
  assumes "pow2 e * pow2 e \<le> x" "x < pow2 (e + 1) * pow2 (e + 1)" "- 1022 \<le> e"
    and "0 \<le> (of_int m - 1 / 2) * pow2 (e - 52)"
      "((of_int m - 1 / 2) * pow2 (e - 52)) * ((of_int m - 1 / 2) * pow2 (e - 52)) < x"
    and "x < ((of_int m + 1 / 2) * pow2 (e - 52)) * ((of_int m + 1 / 2) * pow2 (e - 52))"
    and "q = of_int m * pow2 (e - 52)" "\<bar>q\<bar> < pow2 1024"
  shows "np_sqrt (Fin x) = Fin q"
proof -
  have "0 \<le> x"
    using assms(1) by (meson mult_nonneg_nonneg order_trans pow2_pos less_imp_le)
  then show ?thesis
    using fl_sqrt_eqI [OF assms] by simp
qed

lemma np_sqrt_exactI:
  assumes "x = q * q" "0 \<le> q" "fl q = Fin q"
  shows "np_sqrt (Fin x) = Fin q"
  using fl_sqrt_exactI [OF assms] assms(1,2) by simp

subsection \<open>The rounded values that the examples meet\<close>

named_theorems fl_steps

lemma fl_step_1 [fl_steps]: "fl (3 - 0) = Fin 3"
  by (rule fl_eqI [where e = 1 and m = 6755399441055744]) (simp_all add: pow2_def)

lemma fl_step_2 [fl_steps]: "fl (0 - 4) = Fin (- 4)"
  by (rule fl_eqI [where e = 2 and m = "- 4503599627370496"]) (simp_all add: pow2_def)

lemma fl_step_3 [fl_steps]: "fl (0 - 0) = Fin 0"
  by (rule fl_zeroI) simp

lemma fl_step_4 [fl_steps]: "fmul (Fin 3) (Fin 3) = Fin 9"
  unfolding fmul.simps
  by (rule fl_eqI [where e = 3 and m = 5066549580791808]) (simp_all add: pow2_def)

lemma fl_step_5 [fl_steps]: "fmul (Fin (- 4)) (Fin (- 4)) = Fin 16"
  unfolding fmul.simps
  by (rule fl_eqI [where e = 4 and m = 4503599627370496]) (simp_all add: pow2_def)

lemma fl_step_6 [fl_steps]: "fadd (Fin 9) (Fin 16) = Fin 25"
  unfolding fadd.simps
  by (rule fl_eqI [where e = 4 and m = 7036874417766400]) (simp_all add: pow2_def)

lemma fl_step_7 [fl_steps]: "fmul (Fin 0) (Fin 0) = Fin 0"
  unfolding fmul.simps
  by (rule fl_zeroI) simp

lemma fl_step_8 [fl_steps]: "fadd (Fin 25) (Fin 0) = Fin 25"
  unfolding fadd.simps
  by (rule fl_eqI [where e = 4 and m = 7036874417766400]) (simp_all add: pow2_def)

lemma fl_step_9 [fl_steps]: "np_sqrt (Fin 25) = Fin 5"
  by (rule np_sqrt_exactI [where q = 5], simp, simp, rule fl_eqI [where e = 2 and m = 5629499534213120]) (simp_all add: pow2_def)

lemma fl_step_10 [fl_steps]: "fl (4 - 0) = Fin 4"
  by (rule fl_eqI [where e = 2 and m = 4503599627370496]) (simp_all add: pow2_def)

lemma fl_step_11 [fl_steps]: "fmul (Fin 4) (Fin 4) = Fin 16"
  unfolding fmul.simps
  by (rule fl_eqI [where e = 4 and m = 4503599627370496]) (simp_all add: pow2_def)

lemma fl_step_12 [fl_steps]: "fadd (Fin 0) (Fin 16) = Fin 16"
  unfolding fadd.simps
  by (rule fl_eqI [where e = 4 and m = 4503599627370496]) (simp_all add: pow2_def)

lemma fl_step_13 [fl_steps]: "fadd (Fin 16) (Fin 0) = Fin 16"
  unfolding fadd.simps
  by (rule fl_eqI [where e = 4 and m = 4503599627370496]) (simp_all add: pow2_def)

lemma fl_step_14 [fl_steps]: "np_sqrt (Fin 16) = Fin 4"
  by (rule np_sqrt_exactI [where q = 4], simp, simp, rule fl_eqI [where e = 2 and m = 4503599627370496]) (simp_all add: pow2_def)

lemma fl_step_15 [fl_steps]: "fl (0 - 3) = Fin (- 3)"
  by (rule fl_eqI [where e = 1 and m = "- 6755399441055744"]) (simp_all add: pow2_def)

lemma fl_step_16 [fl_steps]: "fmul (Fin (- 3)) (Fin (- 3)) = Fin 9"
  unfolding fmul.simps
  by (rule fl_eqI [where e = 3 and m = 5066549580791808]) (simp_all add: pow2_def)

lemma fl_step_17 [fl_steps]: "fadd (Fin 9) (Fin 0) = Fin 9"
  unfolding fadd.simps
  by (rule fl_eqI [where e = 3 and m = 5066549580791808]) (simp_all add: pow2_def)

lemma fl_step_18 [fl_steps]: "np_sqrt (Fin 9) = Fin 3"
  by (rule np_sqrt_exactI [where q = 3], simp, simp, rule fl_eqI [where e = 1 and m = 6755399441055744]) (simp_all add: pow2_def)

lemma fl_step_19 [fl_steps]: "fadd (Fin 5) (Fin 4) = Fin 9"
  unfolding fadd.simps
  by (rule fl_eqI [where e = 3 and m = 5066549580791808]) (simp_all add: pow2_def)

lemma fl_step_20 [fl_steps]: "fadd (Fin 9) (Fin 3) = Fin 12"
  unfolding fadd.simps
  by (rule fl_eqI [where e = 3 and m = 6755399441055744]) (simp_all add: pow2_def)

lemma fl_step_21 [fl_steps]: "fhalf (Fin 12) = Fin 6"
  unfolding fhalf.simps
  by (rule fl_eqI [where e = 2 and m = 6755399441055744]) (simp_all add: pow2_def)

lemma fl_step_22 [fl_steps]: "fsub (Fin 6) (Fin 5) = Fin 1"
  unfolding fsub_def fneg.simps fadd.simps
  by (rule fl_eqI [where e = 0 and m = 4503599627370496]) (simp_all add: pow2_def)

lemma fl_step_23 [fl_steps]: "fmul (Fin 6) (Fin 1) = Fin 6"
  unfolding fmul.simps
  by (rule fl_eqI [where e = 2 and m = 6755399441055744]) (simp_all add: pow2_def)

lemma fl_step_24 [fl_steps]: "fsub (Fin 6) (Fin 4) = Fin 2"
  unfolding fsub_def fneg.simps fadd.simps
  by (rule fl_eqI [where e = 1 and m = 4503599627370496]) (simp_all add: pow2_def)

lemma fl_step_25 [fl_steps]: "fmul (Fin 6) (Fin 2) = Fin 12"
  unfolding fmul.simps
  by (rule fl_eqI [where e = 3 and m = 6755399441055744]) (simp_all add: pow2_def)

lemma fl_step_26 [fl_steps]: "fsub (Fin 6) (Fin 3) = Fin 3"
  unfolding fsub_def fneg.simps fadd.simps
  by (rule fl_eqI [where e = 1 and m = 6755399441055744]) (simp_all add: pow2_def)

lemma fl_step_27 [fl_steps]: "fmul (Fin 12) (Fin 3) = Fin 36"
  unfolding fmul.simps
  by (rule fl_eqI [where e = 5 and m = 5066549580791808]) (simp_all add: pow2_def)

lemma fl_step_28 [fl_steps]: "np_sqrt (Fin 36) = Fin 6"
  by (rule np_sqrt_exactI [where q = 6], simp, simp, rule fl_eqI [where e = 2 and m = 6755399441055744]) (simp_all add: pow2_def)

lemma fl_step_29 [fl_steps]: "fl (0 - (- 3)) = Fin 3"
  by (rule fl_eqI [where e = 1 and m = 6755399441055744]) (simp_all add: pow2_def)

lemma fl_step_30 [fl_steps]: "fl ((- 3) - 0) = Fin (- 3)"
  by (rule fl_eqI [where e = 1 and m = "- 6755399441055744"]) (simp_all add: pow2_def)

lemma fl_step_31 [fl_steps]: "fadd (Fin 5) (Fin 3) = Fin 8"
  unfolding fadd.simps
  by (rule fl_eqI [where e = 3 and m = 4503599627370496]) (simp_all add: pow2_def)

lemma fl_step_32 [fl_steps]: "fadd (Fin 8) (Fin 4) = Fin 12"
  unfolding fadd.simps
  by (rule fl_eqI [where e = 3 and m = 6755399441055744]) (simp_all add: pow2_def)

lemma fl_step_33 [fl_steps]: "fmul (Fin 6) (Fin 3) = Fin 18"
  unfolding fmul.simps
  by (rule fl_eqI [where e = 4 and m = 5066549580791808]) (simp_all add: pow2_def)

lemma fl_step_34 [fl_steps]: "fmul (Fin 18) (Fin 2) = Fin 36"
  unfolding fmul.simps
  by (rule fl_eqI [where e = 5 and m = 5066549580791808]) (simp_all add: pow2_def)

lemma fl_step_35 [fl_steps]: "fl (0 - (- 4)) = Fin 4"
  by (rule fl_eqI [where e = 2 and m = 4503599627370496]) (simp_all add: pow2_def)

lemma fl_step_36 [fl_steps]: "fl ((- 4) - 0) = Fin (- 4)"
  by (rule fl_eqI [where e = 2 and m = "- 4503599627370496"]) (simp_all add: pow2_def)

lemma fl_step_37 [fl_steps]: "fl (0 - 1) = Fin (- 1)"
  by (rule fl_eqI [where e = 0 and m = "- 4503599627370496"]) (simp_all add: pow2_def)

lemma fl_step_38 [fl_steps]: "fmul (Fin (- 1)) (Fin (- 1)) = Fin 1"
  unfolding fmul.simps
  by (rule fl_eqI [where e = 0 and m = 4503599627370496]) (simp_all add: pow2_def)

lemma fl_step_39 [fl_steps]: "fadd (Fin 1) (Fin 1) = Fin 2"
  unfolding fadd.simps
  by (rule fl_eqI [where e = 1 and m = 4503599627370496]) (simp_all add: pow2_def)

lemma fl_step_40 [fl_steps]: "fadd (Fin 2) (Fin 1) = Fin 3"
  unfolding fadd.simps
  by (rule fl_eqI [where e = 1 and m = 6755399441055744]) (simp_all add: pow2_def)

lemma fl_step_41 [fl_steps]: "np_sqrt (Fin 3) = Fin (3900231685776981 / 2251799813685248)"
  by (rule np_sqrt_eqI [where e = 0 and m = 7800463371553962]) (simp_all add: pow2_def)

lemma fl_step_42 [fl_steps]: "fl (1 - 5) = Fin (- 4)"
  by (rule fl_eqI [where e = 2 and m = "- 4503599627370496"]) (simp_all add: pow2_def)

lemma fl_step_43 [fl_steps]: "fadd (Fin 16) (Fin 16) = Fin 32"
  unfolding fadd.simps
  by (rule fl_eqI [where e = 5 and m = 4503599627370496]) (simp_all add: pow2_def)

lemma fl_step_44 [fl_steps]: "fadd (Fin 32) (Fin 16) = Fin 48"
  unfolding fadd.simps
  by (rule fl_eqI [where e = 5 and m = 6755399441055744]) (simp_all add: pow2_def)

lemma fl_step_45 [fl_steps]: "np_sqrt (Fin 48) = Fin (3900231685776981 / 562949953421312)"
  by (rule np_sqrt_eqI [where e = 2 and m = 7800463371553962]) (simp_all add: pow2_def)

lemma fl_step_46 [fl_steps]: "fl (5 - 0) = Fin 5"
  by (rule fl_eqI [where e = 2 and m = 5629499534213120]) (simp_all add: pow2_def)

lemma fl_step_47 [fl_steps]: "fmul (Fin 5) (Fin 5) = Fin 25"
  unfolding fmul.simps
  by (rule fl_eqI [where e = 4 and m = 7036874417766400]) (simp_all add: pow2_def)

lemma fl_step_48 [fl_steps]: "fadd (Fin 25) (Fin 25) = Fin 50"
  unfolding fadd.simps
  by (rule fl_eqI [where e = 5 and m = 7036874417766400]) (simp_all add: pow2_def)

lemma fl_step_49 [fl_steps]: "fadd (Fin 50) (Fin 25) = Fin 75"
  unfolding fadd.simps
  by (rule fl_eqI [where e = 6 and m = 5277655813324800]) (simp_all add: pow2_def)

lemma fl_step_50 [fl_steps]: "np_sqrt (Fin 75) = Fin (4875289607221227 / 562949953421312)"
  by (rule np_sqrt_eqI [where e = 3 and m = 4875289607221227]) (simp_all add: pow2_def)

lemma fl_step_51 [fl_steps]: "fadd (Fin (3900231685776981 / 2251799813685248)) (Fin (3900231685776981 / 562949953421312)) = Fin (2437644803610613 / 281474976710656)"
  unfolding fadd.simps
  by (rule fl_eqI [where e = 3 and m = 4875289607221226]) (simp_all add: pow2_def)

lemma fl_step_52 [fl_steps]: "fadd (Fin (2437644803610613 / 281474976710656)) (Fin (4875289607221227 / 562949953421312)) = Fin (2437644803610613 / 140737488355328)"
  unfolding fadd.simps
  by (rule fl_tieI [where e = 4 and m = 4875289607221226]) (simp_all add: pow2_def)

lemma fl_step_53 [fl_steps]: "fhalf (Fin (2437644803610613 / 140737488355328)) = Fin (2437644803610613 / 281474976710656)"
  unfolding fhalf.simps
  by (rule fl_eqI [where e = 3 and m = 4875289607221226]) (simp_all add: pow2_def)

lemma fl_step_54 [fl_steps]: "fsub (Fin (2437644803610613 / 281474976710656)) (Fin (3900231685776981 / 2251799813685248)) = Fin (3900231685776981 / 562949953421312)"
  unfolding fsub_def fneg.simps fadd.simps
  by (rule fl_tieI [where e = 2 and m = 7800463371553961]) (simp_all add: pow2_def)

lemma fl_step_55 [fl_steps]: "fmul (Fin (2437644803610613 / 281474976710656)) (Fin (3900231685776981 / 562949953421312)) = Fin (8444249301319679 / 140737488355328)"
  unfolding fmul.simps
  by (rule fl_eqI [where e = 5 and m = 8444249301319679]) (simp_all add: pow2_def)

lemma fl_step_56 [fl_steps]: "fsub (Fin (2437644803610613 / 281474976710656)) (Fin (3900231685776981 / 562949953421312)) = Fin (975057921444245 / 562949953421312)"
  unfolding fsub_def fneg.simps fadd.simps
  by (rule fl_eqI [where e = 0 and m = 7800463371553960]) (simp_all add: pow2_def)

lemma fl_step_57 [fl_steps]: "fmul (Fin (8444249301319679 / 140737488355328)) (Fin (975057921444245 / 562949953421312)) = Fin (7312934410831837 / 70368744177664)"
  unfolding fmul.simps
  by (rule fl_eqI [where e = 6 and m = 7312934410831837]) (simp_all add: pow2_def)

lemma fl_step_58 [fl_steps]: "fsub (Fin (2437644803610613 / 281474976710656)) (Fin (4875289607221227 / 562949953421312)) = Fin (- (1 / 562949953421312))"
  unfolding fsub_def fneg.simps fadd.simps
  by (rule fl_eqI [where e = "- 49" and m = "- 4503599627370496"]) (simp_all add: pow2_def)

lemma fl_step_59 [fl_steps]: "fmul (Fin (7312934410831837 / 70368744177664)) (Fin (- (1 / 562949953421312))) = Fin (- (7312934410831837 / 39614081257132168796771975168))"
  unfolding fmul.simps
  by (rule fl_eqI [where e = "- 43" and m = "- 7312934410831837"]) (simp_all add: pow2_def)

lemma fl_step_60 [fl_steps]: "np_sqrt (Fin (- (7312934410831837 / 39614081257132168796771975168))) = NaN"
  by simp

lemma fl_step_61 [fl_steps]: "fl (0 - 5) = Fin (- 5)"
  by (rule fl_eqI [where e = 2 and m = "- 5629499534213120"]) (simp_all add: pow2_def)

lemma fl_step_62 [fl_steps]: "fmul (Fin (- 5)) (Fin (- 5)) = Fin 25"
  unfolding fmul.simps
  by (rule fl_eqI [where e = 4 and m = 7036874417766400]) (simp_all add: pow2_def)

lemma fl_step_63 [fl_steps]: "fl (5 - 1) = Fin 4"
  by (rule fl_eqI [where e = 2 and m = 4503599627370496]) (simp_all add: pow2_def)

lemma fl_step_64 [fl_steps]: "fl (1 - 0) = Fin 1"
  by (rule fl_eqI [where e = 0 and m = 4503599627370496]) (simp_all add: pow2_def)

lemma fl_step_65 [fl_steps]: "fmul (Fin 1) (Fin 1) = Fin 1"
  unfolding fmul.simps
  by (rule fl_eqI [where e = 0 and m = 4503599627370496]) (simp_all add: pow2_def)

lemma fl_step_66 [fl_steps]: "fadd (Fin (4875289607221227 / 562949953421312)) (Fin (3900231685776981 / 562949953421312)) = Fin (137117520203097 / 8796093022208)"
  unfolding fadd.simps
  by (rule fl_eqI [where e = 3 and m = 8775521292998208]) (simp_all add: pow2_def)

lemma fl_step_67 [fl_steps]: "fadd (Fin (137117520203097 / 8796093022208)) (Fin (3900231685776981 / 2251799813685248)) = Fin (4875289607221227 / 281474976710656)"
  unfolding fadd.simps
  by (rule fl_eqI [where e = 4 and m = 4875289607221227]) (simp_all add: pow2_def)

lemma fl_step_68 [fl_steps]: "fhalf (Fin (4875289607221227 / 281474976710656)) = Fin (4875289607221227 / 562949953421312)"
  unfolding fhalf.simps
  by (rule fl_eqI [where e = 3 and m = 4875289607221227]) (simp_all add: pow2_def)

lemma fl_step_69 [fl_steps]: "fsub (Fin (4875289607221227 / 562949953421312)) (Fin (4875289607221227 / 562949953421312)) = Fin 0"
  unfolding fsub_def fneg.simps fadd.simps
  by (rule fl_zeroI) simp

lemma fl_step_70 [fl_steps]: "fmul (Fin (4875289607221227 / 562949953421312)) (Fin 0) = Fin 0"
  unfolding fmul.simps
  by (rule fl_zeroI) simp

lemma fl_step_71 [fl_steps]: "fsub (Fin (4875289607221227 / 562949953421312)) (Fin (3900231685776981 / 562949953421312)) = Fin (487528960722123 / 281474976710656)"
  unfolding fsub_def fneg.simps fadd.simps
  by (rule fl_eqI [where e = 0 and m = 7800463371553968]) (simp_all add: pow2_def)

lemma fl_step_72 [fl_steps]: "fmul (Fin 0) (Fin (487528960722123 / 281474976710656)) = Fin 0"
  unfolding fmul.simps
  by (rule fl_zeroI) simp

lemma fl_step_73 [fl_steps]: "fsub (Fin (4875289607221227 / 562949953421312)) (Fin (3900231685776981 / 2251799813685248)) = Fin (1950115842888491 / 281474976710656)"
  unfolding fsub_def fneg.simps fadd.simps
  by (rule fl_tieI [where e = 2 and m = 7800463371553963]) (simp_all add: pow2_def)

lemma fl_step_74 [fl_steps]: "fmul (Fin 0) (Fin (1950115842888491 / 281474976710656)) = Fin 0"
  unfolding fmul.simps
  by (rule fl_zeroI) simp

lemma fl_step_75 [fl_steps]: "np_sqrt (Fin 0) = Fin 0"
  by (simp add: fl_def)

lemma fl_step_76 [fl_steps]: "fl (0 - 67108868) = Fin (- 67108868)"
  by (rule fl_eqI [where e = 26 and m = "- 4503599895805952"]) (simp_all add: pow2_def)

lemma fl_step_77 [fl_steps]: "fl (0 - 2) = Fin (- 2)"
  by (rule fl_eqI [where e = 1 and m = "- 4503599627370496"]) (simp_all add: pow2_def)

lemma fl_step_78 [fl_steps]: "fl (0 - 8193) = Fin (- 8193)"
  by (rule fl_eqI [where e = 13 and m = "- 4504149383184384"]) (simp_all add: pow2_def)

lemma fl_step_79 [fl_steps]: "fmul (Fin (- 67108868)) (Fin (- 67108868)) = Fin 4503600164241424"
  unfolding fmul.simps
  by (rule fl_eqI [where e = 52 and m = 4503600164241424]) (simp_all add: pow2_def)

lemma fl_step_80 [fl_steps]: "fmul (Fin (- 2)) (Fin (- 2)) = Fin 4"
  unfolding fmul.simps
  by (rule fl_eqI [where e = 2 and m = 4503599627370496]) (simp_all add: pow2_def)

lemma fl_step_81 [fl_steps]: "fadd (Fin 4503600164241424) (Fin 4) = Fin 4503600164241428"
  unfolding fadd.simps
  by (rule fl_eqI [where e = 52 and m = 4503600164241428]) (simp_all add: pow2_def)

lemma fl_step_82 [fl_steps]: "fmul (Fin (- 8193)) (Fin (- 8193)) = Fin 67125249"
  unfolding fmul.simps
  by (rule fl_eqI [where e = 26 and m = 4504699206107136]) (simp_all add: pow2_def)

lemma fl_step_83 [fl_steps]: "fadd (Fin 4503600164241428) (Fin 67125249) = Fin 4503600231366677"
  unfolding fadd.simps
  by (rule fl_eqI [where e = 52 and m = 4503600231366677]) (simp_all add: pow2_def)

lemma fl_step_84 [fl_steps]: "np_sqrt (Fin 4503600231366677) = Fin (549755850753 / 8192)"
  by (rule np_sqrt_eqI [where e = 26 and m = 4503599929368576]) (simp_all add: pow2_def)

lemma fl_step_85 [fl_steps]: "fl (67108868 - 201326604) = Fin (- 134217736)"
  by (rule fl_eqI [where e = 27 and m = "- 4503599895805952"]) (simp_all add: pow2_def)

lemma fl_step_86 [fl_steps]: "fl (2 - 6) = Fin (- 4)"
  by (rule fl_eqI [where e = 2 and m = "- 4503599627370496"]) (simp_all add: pow2_def)

lemma fl_step_87 [fl_steps]: "fl (8193 - 24579) = Fin (- 16386)"
  by (rule fl_eqI [where e = 14 and m = "- 4504149383184384"]) (simp_all add: pow2_def)

lemma fl_step_88 [fl_steps]: "fmul (Fin (- 134217736)) (Fin (- 134217736)) = Fin 18014400656965696"
  unfolding fmul.simps
  by (rule fl_eqI [where e = 54 and m = 4503600164241424]) (simp_all add: pow2_def)

lemma fl_step_89 [fl_steps]: "fadd (Fin 18014400656965696) (Fin 16) = Fin 18014400656965712"
  unfolding fadd.simps
  by (rule fl_eqI [where e = 54 and m = 4503600164241428]) (simp_all add: pow2_def)

lemma fl_step_90 [fl_steps]: "fmul (Fin (- 16386)) (Fin (- 16386)) = Fin 268500996"
  unfolding fmul.simps
  by (rule fl_eqI [where e = 28 and m = 4504699206107136]) (simp_all add: pow2_def)

lemma fl_step_91 [fl_steps]: "fadd (Fin 18014400656965712) (Fin 268500996) = Fin 18014400925466708"
  unfolding fadd.simps
  by (rule fl_eqI [where e = 54 and m = 4503600231366677]) (simp_all add: pow2_def)

lemma fl_step_92 [fl_steps]: "np_sqrt (Fin 18014400925466708) = Fin (549755850753 / 4096)"
  by (rule np_sqrt_eqI [where e = 27 and m = 4503599929368576]) (simp_all add: pow2_def)

lemma fl_step_93 [fl_steps]: "fl (201326604 - 0) = Fin 201326604"
  by (rule fl_eqI [where e = 27 and m = 6755399843708928]) (simp_all add: pow2_def)

lemma fl_step_94 [fl_steps]: "fl (6 - 0) = Fin 6"
  by (rule fl_eqI [where e = 2 and m = 6755399441055744]) (simp_all add: pow2_def)

lemma fl_step_95 [fl_steps]: "fl (24579 - 0) = Fin 24579"
  by (rule fl_eqI [where e = 14 and m = 6756224074776576]) (simp_all add: pow2_def)

lemma fl_step_96 [fl_steps]: "fmul (Fin 201326604) (Fin 201326604) = Fin 40532401478172816"
  unfolding fmul.simps
  by (rule fl_eqI [where e = 55 and m = 5066550184771602]) (simp_all add: pow2_def)

lemma fl_step_97 [fl_steps]: "fmul (Fin 6) (Fin 6) = Fin 36"
  unfolding fmul.simps
  by (rule fl_eqI [where e = 5 and m = 5066549580791808]) (simp_all add: pow2_def)

lemma fl_step_98 [fl_steps]: "fadd (Fin 40532401478172816) (Fin 36) = Fin 40532401478172848"
  unfolding fadd.simps
  by (rule fl_tieI [where e = 55 and m = 5066550184771606]) (simp_all add: pow2_def)

lemma fl_step_99 [fl_steps]: "fmul (Fin 24579) (Fin 24579) = Fin 604127241"
  unfolding fmul.simps
  by (rule fl_eqI [where e = 29 and m = 5067786606870528]) (simp_all add: pow2_def)

lemma fl_step_100 [fl_steps]: "fadd (Fin 40532401478172848) (Fin 604127241) = Fin 40532402082300088"
  unfolding fadd.simps
  by (rule fl_eqI [where e = 55 and m = 5066550260287511]) (simp_all add: pow2_def)

lemma fl_step_101 [fl_steps]: "np_sqrt (Fin 40532402082300088) = Fin (1649267552259 / 8192)"
  by (rule np_sqrt_eqI [where e = 27 and m = 6755399894052864]) (simp_all add: pow2_def)

lemma fl_step_102 [fl_steps]: "fadd (Fin (549755850753 / 8192)) (Fin (549755850753 / 4096)) = Fin (1649267552259 / 8192)"
  unfolding fadd.simps
  by (rule fl_eqI [where e = 27 and m = 6755399894052864]) (simp_all add: pow2_def)

lemma fl_step_103 [fl_steps]: "fadd (Fin (1649267552259 / 8192)) (Fin (1649267552259 / 8192)) = Fin (1649267552259 / 4096)"
  unfolding fadd.simps
  by (rule fl_eqI [where e = 28 and m = 6755399894052864]) (simp_all add: pow2_def)

lemma fl_step_104 [fl_steps]: "fhalf (Fin (1649267552259 / 4096)) = Fin (1649267552259 / 8192)"
  unfolding fhalf.simps
  by (rule fl_eqI [where e = 27 and m = 6755399894052864]) (simp_all add: pow2_def)

lemma fl_step_105 [fl_steps]: "fsub (Fin (1649267552259 / 8192)) (Fin (549755850753 / 8192)) = Fin (549755850753 / 4096)"
  unfolding fsub_def fneg.simps fadd.simps
  by (rule fl_eqI [where e = 27 and m = 4503599929368576]) (simp_all add: pow2_def)

lemma fl_step_106 [fl_steps]: "fmul (Fin (1649267552259 / 8192)) (Fin (549755850753 / 4096)) = Fin 27021601388200056"
  unfolding fmul.simps
  by (rule fl_eqI [where e = 54 and m = 6755400347050014]) (simp_all add: pow2_def)

lemma fl_step_107 [fl_steps]: "fsub (Fin (1649267552259 / 8192)) (Fin (549755850753 / 4096)) = Fin (549755850753 / 8192)"
  unfolding fsub_def fneg.simps fadd.simps
  by (rule fl_eqI [where e = 26 and m = 4503599929368576]) (simp_all add: pow2_def)

lemma fl_step_108 [fl_steps]: "fmul (Fin 27021601388200056) (Fin (549755850753 / 8192)) = Fin 1813389094223433611345920"
  unfolding fmul.simps
  by (rule fl_eqI [where e = 80 and m = 6755400800047195]) (simp_all add: pow2_def)

lemma fl_step_109 [fl_steps]: "fsub (Fin (1649267552259 / 8192)) (Fin (1649267552259 / 8192)) = Fin 0"
  unfolding fsub_def fneg.simps fadd.simps
  by (rule fl_zeroI) simp

lemma fl_step_110 [fl_steps]: "fmul (Fin 1813389094223433611345920) (Fin 0) = Fin 0"
  unfolding fmul.simps
  by (rule fl_zeroI) simp

lemma fl_step_111 [fl_steps]: "fadd (Fin 4) (Fin 67125249) = Fin 67125253"
  unfolding fadd.simps
  by (rule fl_eqI [where e = 26 and m = 4504699474542592]) (simp_all add: pow2_def)

lemma fl_step_112 [fl_steps]: "fadd (Fin 67125253) (Fin 4503600164241424) = Fin 4503600231366677"
  unfolding fadd.simps
  by (rule fl_eqI [where e = 52 and m = 4503600231366677]) (simp_all add: pow2_def)

lemma fl_step_113 [fl_steps]: "fadd (Fin 16) (Fin 268500996) = Fin 268501012"
  unfolding fadd.simps
  by (rule fl_eqI [where e = 28 and m = 4504699474542592]) (simp_all add: pow2_def)

lemma fl_step_114 [fl_steps]: "fadd (Fin 268501012) (Fin 18014400656965696) = Fin 18014400925466708"
  unfolding fadd.simps
  by (rule fl_eqI [where e = 54 and m = 4503600231366677]) (simp_all add: pow2_def)

lemma fl_step_115 [fl_steps]: "fadd (Fin 36) (Fin 604127241) = Fin 604127277"
  unfolding fadd.simps
  by (rule fl_eqI [where e = 29 and m = 5067786908860416]) (simp_all add: pow2_def)

lemma fl_step_116 [fl_steps]: "fadd (Fin 604127277) (Fin 40532401478172816) = Fin 40532402082300096"
  unfolding fadd.simps
  by (rule fl_eqI [where e = 55 and m = 5066550260287512]) (simp_all add: pow2_def)

lemma fl_step_117 [fl_steps]: "np_sqrt (Fin 40532402082300096) = Fin (6755399894052865 / 33554432)"
  by (rule np_sqrt_eqI [where e = 27 and m = 6755399894052865]) (simp_all add: pow2_def)

lemma fl_step_118 [fl_steps]: "fadd (Fin (1649267552259 / 8192)) (Fin (6755399894052865 / 33554432)) = Fin (1649267552259 / 4096)"
  unfolding fadd.simps
  by (rule fl_tieI [where e = 28 and m = 6755399894052864]) (simp_all add: pow2_def)

lemma fl_step_119 [fl_steps]: "fsub (Fin (1649267552259 / 8192)) (Fin (6755399894052865 / 33554432)) = Fin (- (1 / 33554432))"
  unfolding fsub_def fneg.simps fadd.simps
  by (rule fl_eqI [where e = "- 25" and m = "- 4503599627370496"]) (simp_all add: pow2_def)

lemma fl_step_120 [fl_steps]: "fmul (Fin 1813389094223433611345920) (Fin (- (1 / 33554432))) = Fin (- 54043206400377560)"
  unfolding fmul.simps
  by (rule fl_eqI [where e = 55 and m = "- 6755400800047195"]) (simp_all add: pow2_def)

lemma fl_step_121 [fl_steps]: "np_sqrt (Fin (- 54043206400377560)) = NaN"
  by simp

subsection \<open>Lists, sums and matrices\<close>

lemma mapM_err_Inr:
  "(\<And>x. x \<in> set xs \<Longrightarrow> f x = Inr (g x)) \<Longrightarrow> mapM_err f xs = Inr (map g xs)"
  by (induction xs) simp_all

lemma foldl_plus_sum_list:
  fixes a :: "'a::comm_monoid_add"
  shows "foldl (+) a xs = a + sum_list xs"
  by (induction xs arbitrary: a) (simp_all add: add.assoc)

lemma py_sum_sum_list: "py_sum xs = sum_list xs"
  by (simp add: py_sum_def foldl_plus_sum_list)

lemma np_div_zero [simp]: "c \<noteq> 0 \<Longrightarrow> np_div 0 c = 0"
  by (simp add: zero_npfloat_def)

lemma length_lil_matrix [simp]: "length (lil_matrix r c) = r"
  by (simp add: lil_matrix_def)

lemma nth_lil_matrix [simp]: "i < r \<Longrightarrow> lil_matrix r c ! i = replicate c 0"
  by (simp add: lil_matrix_def)

lemma setdiag_lil_matrix:
  "length v = n \<Longrightarrow> setdiag (lil_matrix n n) v = diag_spec n (\<lambda>i. v ! i)"
  unfolding setdiag_def diag_spec_def
  by (auto intro!: nth_equalityI simp: nth_list_update)

lemma diag_spec_cong:
  "(\<And>i. i < n \<Longrightarrow> d i = d' i) \<Longrightarrow> diag_spec n d = diag_spec n d'"
  by (simp add: diag_spec_def)

lemma setdiag_lil_matrix_map:
  "setdiag (lil_matrix n n) (map f [0..<n]) = diag_spec n f"
proof -
  have "setdiag (lil_matrix n n) (map f [0..<n]) = diag_spec n (\<lambda>i. map f [0..<n] ! i)"
    by (rule setdiag_lil_matrix) simp
  also have "\<dots> = diag_spec n f"
    by (rule diag_spec_cong) simp
  finally show ?thesis .
qed

lemma mat_div_diag_spec:
  "c \<noteq> 0 \<Longrightarrow> mat_div (diag_spec n d) c = diag_spec n (\<lambda>i. np_div (d i) c)"
  unfolding mat_div_def diag_spec_def
  by (auto intro!: nth_equalityI)

lemma row_sums:
  assumes "n \<le> length L" and "\<And>i k. i < n \<Longrightarrow> k \<in> set (L ! i) \<Longrightarrow> g i k = Inr (h i k)"
  shows "mapM_err (\<lambda>i. bind_err (nth_err L i)
               (\<lambda>Li. bind_err (mapM_err (\<lambda>k. g i k) Li) (\<lambda>ws. Inr (py_sum ws)))) [0..<n]
         = Inr (map (\<lambda>i. sum_list (map (h i) (L ! i))) [0..<n])"
proof (rule mapM_err_Inr)
  fix i assume "i \<in> set [0..<n]"
  then have i: "i < n" by simp
  with assms(1) have "nth_err L i = Inr (L ! i)" by (simp add: nth_err_def)
  moreover have "mapM_err (\<lambda>k. g i k) (L ! i) = Inr (map (h i) (L ! i))"
    by (rule mapM_err_Inr) (simp add: assms(2) i)
  ultimately show "bind_err (nth_err L i)
               (\<lambda>Li. bind_err (mapM_err (\<lambda>k. g i k) Li) (\<lambda>ws. Inr (py_sum ws)))
         = Inr (sum_list (map (h i) (L ! i)))"
    by (simp add: py_sum_sum_list)
qed

lemma square_matrix_nth: "square_matrix n M \<Longrightarrow> i < n \<Longrightarrow> length (M ! i) = n"
  by (simp add: square_matrix_def)

lemma square_matrix_lengths: "square_matrix n M \<Longrightarrow> map length M = replicate n n"
  by (auto simp: square_matrix_def intro!: nth_equalityI)

lemma square_diag_spec: "square_matrix n (diag_spec n d)"
  by (auto simp: square_matrix_def diag_spec_def)

lemma gen_V_spec:
  assumes W: "square_matrix n W" and nb: "neighbors_ok n Neighbor"
  shows "gen_V Meshes W Neighbor = Inr (V_spec W Neighbor)"
proof -
  from W have n: "length W = n" by (simp add: square_matrix_def)
  have get: "getitem W i k = Inr (W ! i ! k)" if "i < n" "k \<in> set (Neighbor ! i)" for i k
    using that W nb by (simp add: getitem_def n neighbors_ok_def square_matrix_nth)
  have sums: "mapM_err (\<lambda>i. bind_err (nth_err Neighbor i)
               (\<lambda>Ni. bind_err (mapM_err (\<lambda>j. getitem W i j) Ni) (\<lambda>ws. Inr (py_sum ws)))) [0..<n]
         = Inr (map (\<lambda>i. sum_list (map (\<lambda>j. W ! i ! j) (Neighbor ! i))) [0..<n])"
    using nb by (intro row_sums get) (simp_all add: neighbors_ok_def)
  show ?thesis
    by (simp add: gen_V_def Let_def n sums setdiag_lil_matrix_map mat_div_diag_spec V_spec_def)
qed

lemma mat_sub_entries:
  assumes "square_matrix n A" and "square_matrix n B"
  shows "mat_sub A B = Inr (map (\<lambda>i. map (\<lambda>j. A ! i ! j - B ! i ! j) [0..<n]) [0..<n])"
proof -
  have "map2 (map2 (-)) A B = map (\<lambda>i. map (\<lambda>j. A ! i ! j - B ! i ! j) [0..<n]) [0..<n]"
    using assms by (auto simp: square_matrix_def intro!: nth_equalityI)
  with assms show ?thesis
    by (simp add: mat_sub_def square_matrix_lengths)
qed

lemma mat_add_entries:
  assumes "square_matrix n A" and "square_matrix n B"
  shows "mat_add A B = Inr (map (\<lambda>i. map (\<lambda>j. A ! i ! j + B ! i ! j) [0..<n]) [0..<n])"
proof -
  have "map2 (map2 (+)) A B = map (\<lambda>i. map (\<lambda>j. A ! i ! j + B ! i ! j) [0..<n]) [0..<n]"
    using assms by (auto simp: square_matrix_def intro!: nth_equalityI)
  with assms show ?thesis
    by (simp add: mat_add_def square_matrix_lengths)
qed

lemma stiffness_spec:
  assumes W: "square_matrix n W" and nb: "neighbors_ok n Neighbor"
  shows "stiffness Faces W Neighbor = Inr (A_spec W Neighbor)"
proof -
  from W have n: "length W = n" by (simp add: square_matrix_def)
  have V: "square_matrix n (V_spec W Neighbor)"
    by (simp add: V_spec_def n square_diag_spec)
  have "mat_sub (V_spec W Neighbor) W = Inr (A_spec W Neighbor)"
    unfolding mat_sub_entries [OF V W]
    by (simp add: A_spec_def V_spec_def diag_spec_def n)
  then show ?thesis
    by (simp add: stiffness_def gen_V_spec [OF W nb])
qed

lemma area_loop_mapM:
  "i + length Ts = length Area \<Longrightarrow>
     area_loop Nodes Ts Area i =
       bind_err (mapM_err (triangle_area Nodes) Ts) (\<lambda>ys. Inr (take i Area @ ys))"
proof (induction Ts arbitrary: Area i)
  case Nil
  then show ?case by simp
next
  case (Cons T Ts)
  show ?case
  proof (cases "triangle_area Nodes T")
    case (Inl e)
    then show ?thesis by simp
  next
    case (Inr x)
    from Cons.prems have i: "i < length Area" by simp
    from Cons.prems have "Suc i + length Ts = length (Area[i := x])" by simp
    from Cons.IH [OF this]
    have "area_loop Nodes Ts (Area[i := x]) (Suc i) =
            bind_err (mapM_err (triangle_area Nodes) Ts)
              (\<lambda>ys. Inr (take (Suc i) (Area[i := x]) @ ys))" .
    moreover have "take (Suc i) (Area[i := x]) = take i Area @ [x]"
      using i by (simp add: take_Suc_conv_app_nth)
    ultimately show ?thesis
      using Inr i by (cases "mapM_err (triangle_area Nodes) Ts") simp_all
  qed
qed

lemma area_mapM: "area Nodes Meshes = mapM_err (triangle_area Nodes) Meshes"
proof -
  have "area Nodes Meshes =
          bind_err (mapM_err (triangle_area Nodes) Meshes) (\<lambda>ys. Inr ([] @ ys))"
    unfolding area_def by (subst area_loop_mapM) simp_all
  then show ?thesis
    by (cases "mapM_err (triangle_area Nodes) Meshes") simp_all
qed

lemma area_spec_ok:
  assumes "faces_ok (length Nodes) Faces"
  shows "area Nodes Faces = Inr (area_spec Nodes Faces)"
  unfolding area_mapM area_spec_def
proof (rule mapM_err_Inr)
  fix T assume "T \<in> set Faces"
  with assms show "triangle_area Nodes T =
      Inr (case T of (t0, t1, t2) \<Rightarrow> heron (side Nodes t0 t1) (side Nodes t1 t2) (side Nodes t2 t0))"
    by (auto simp: faces_ok_def triangle_area_def nth_err_def side_def Let_def)
qed

lemma incident_sums:
  assumes "incident_ok n (length Areas) Faces_at_Nodes"
  shows "mapM_err (\<lambda>i. bind_err (nth_err Faces_at_Nodes i)
               (\<lambda>Fi. bind_err (mapM_err (\<lambda>j. nth_err Areas j) Fi) (\<lambda>as. Inr (py_sum as)))) [0..<n]
         = Inr (map (\<lambda>i. sum_list (map (\<lambda>f. Areas ! f) (Faces_at_Nodes ! i))) [0..<n])"
  using assms by (intro row_sums) (auto simp: incident_ok_def nth_err_def)

lemma masses_spec:
  assumes "incident_ok (length Nodes) (length Areas) Faces_at_Nodes"
  shows "masses Nodes Areas Faces_at_Nodes = Inr (D_spec (length Nodes) Areas Faces_at_Nodes)"
  by (simp add: masses_def Let_def incident_sums [OF assms] setdiag_lil_matrix_map
      mat_div_diag_spec D_spec_def)

lemma gen_Q_spec:
  assumes "incident_ok n (length Areas) Faces_at_Nodes"
  shows "gen_Q edges faces_at_edges Areas n Neighbor Faces_at_Nodes =
           Inr (Q_spec n Areas Faces_at_Nodes)"
  by (simp add: gen_Q_def Let_def incident_sums [OF assms] setdiag_lil_matrix_map
      mat_div_diag_spec Q_spec_def)

lemma square_matrix_tabulate:
  "square_matrix n (map (\<lambda>i. map (\<lambda>j. f i j) [0..<n]) [0..<n])"
  by (auto simp: square_matrix_def)

lemma square_matrix_eq_tabulate:
  "square_matrix n M \<Longrightarrow> M = map (\<lambda>i. map (\<lambda>j. M ! i ! j) [0..<n]) [0..<n]"
  by (auto simp: square_matrix_def intro!: nth_equalityI)

lemma setitem_square:
  assumes "square_matrix n P" "i < n" "j < n"
  shows "setitem P i j v =
           Inr (map (\<lambda>a. map (\<lambda>b. if a = i \<and> b = j then v else P ! a ! b) [0..<n]) [0..<n])"
proof -
  have "P[i := (P ! i)[j := v]] =
          map (\<lambda>a. map (\<lambda>b. if a = i \<and> b = j then v else P ! a ! b) [0..<n]) [0..<n]"
    using assms by (auto simp: square_matrix_def nth_list_update intro!: nth_equalityI)
  with assms show ?thesis
    by (simp add: setitem_def square_matrix_def)
qed

lemma gen_P_loop_spec:
  assumes "edges_ok n (length Areas) edges faces_at_edges" and "square_matrix n P"
  shows "gen_P_loop edges faces_at_edges Areas P =
           Inr (map (\<lambda>a. map (\<lambda>b. if (a, b) \<in> set edges
                                    then edge_area_sum faces_at_edges Areas a b
                                    else P ! a ! b) [0..<n]) [0..<n])"
  using assms
proof (induction edges arbitrary: P)
  case Nil
  then show ?case
    using square_matrix_eq_tabulate [of n P] by simp
next
  case (Cons e edges)
  obtain i j where e: "e = (i, j)" by (cases e)
  from Cons.prems(1) obtain fs where ij: "i < n" "j < n"
    and fs: "faces_at_edges (i, j) = Some fs" "\<forall>f \<in> set fs. f < length Areas"
    and rest: "edges_ok n (length Areas) edges faces_at_edges"
    by (auto simp: edges_ok_def e split: option.splits)
  let ?v = "edge_area_sum faces_at_edges Areas i j"
  let ?P' = "map (\<lambda>a. map (\<lambda>b. if a = i \<and> b = j then ?v else P ! a ! b) [0..<n]) [0..<n]"
  have areas: "mapM_err (\<lambda>face. nth_err Areas face) fs = Inr (map (\<lambda>f. Areas ! f) fs)"
    using fs(2) by (intro mapM_err_Inr) (simp add: nth_err_def)
  have v: "py_sum (map (\<lambda>f. Areas ! f) fs) = ?v"
    by (simp add: py_sum_sum_list edge_area_sum_def fs(1))
  have step: "gen_P_loop (e # edges) faces_at_edges Areas P =
                gen_P_loop edges faces_at_edges Areas ?P'"
    by (simp add: e fs(1) areas v setitem_square [OF Cons.prems(2) ij] cong: if_cong)
  have "gen_P_loop edges faces_at_edges Areas ?P' =
          Inr (map (\<lambda>a. map (\<lambda>b. if (a, b) \<in> set edges
                                    then edge_area_sum faces_at_edges Areas a b
                                    else ?P' ! a ! b) [0..<n]) [0..<n])"
    by (rule Cons.IH [OF rest square_matrix_tabulate])
  also have "map (\<lambda>a. map (\<lambda>b. if (a, b) \<in> set edges
                                    then edge_area_sum faces_at_edges Areas a b
                                    else ?P' ! a ! b) [0..<n]) [0..<n] =
             map (\<lambda>a. map (\<lambda>b. if (a, b) \<in> set (e # edges)
                                    then edge_area_sum faces_at_edges Areas a b
                                    else P ! a ! b) [0..<n]) [0..<n]"
    by (auto simp: e)
  finally show ?case
    by (simp only: step)
qed

lemma mat_div_tabulate:
  "mat_div (map (\<lambda>i. map (\<lambda>j. f i j) [0..<n]) [0..<n]) c =
     map (\<lambda>i. map (\<lambda>j. np_div (f i j) c) [0..<n]) [0..<n]"
  by (simp add: mat_div_def)

lemma gen_P_spec:
  assumes "edges_ok n (length Areas) edges faces_at_edges"
  shows "gen_P edges faces_at_edges Areas n = Inr (P_spec n edges faces_at_edges Areas)"
proof -
  have sq: "square_matrix n (lil_matrix n n)"
    by (simp add: square_matrix_def lil_matrix_def)
  show ?thesis
    unfolding gen_P_def gen_P_loop_spec [OF assms sq]
    by (simp add: mat_div_tabulate P_spec_def P_entry_def)
qed

lemma fem_mass_spec:
  assumes "edges_ok n (length Areas) edges faces_at_edges"
    and "incident_ok n (length Areas) Faces_at_Nodes"
  shows "fem_mass edges faces_at_edges Areas n Neighbor Faces_at_Nodes =
           Inr (B_spec n edges faces_at_edges Areas Faces_at_Nodes)"
proof -
  have P: "square_matrix n (P_spec n edges faces_at_edges Areas)"
    unfolding P_spec_def by (rule square_matrix_tabulate)
  have Q: "square_matrix n (Q_spec n Areas Faces_at_Nodes)"
    unfolding Q_spec_def by (rule square_diag_spec)
  have "mat_add (P_spec n edges faces_at_edges Areas) (Q_spec n Areas Faces_at_Nodes) =
          Inr (B_spec n edges faces_at_edges Areas Faces_at_Nodes)"
    unfolding mat_add_entries [OF P Q]
    by (simp add: B_spec_def P_spec_def Q_spec_def diag_spec_def Q_entry_def)
  then show ?thesis
    by (simp add: fem_mass_def gen_P_spec [OF assms(1)] gen_Q_spec [OF assms(2)] toarray_def)
qed

lemma square_matrix_mat_div: "square_matrix n W \<Longrightarrow> square_matrix n (mat_div W c)"
  by (auto simp: square_matrix_def mat_div_def)

lemma length_area_spec [simp]: "length (area_spec Nodes Faces) = length Faces"
  by (simp add: area_spec_def)

lemma geometric_laplacian_char:
  assumes "wf_geo env Nodes Faces"
  shows "geometric_laplacian env Nodes Faces =
           ([], solve_and_invert env (stiffness_of env Nodes Faces) (geo_mass_of env Nodes Faces))"
proof -
  let ?n = "length Nodes"
  from assms have n: "\<not> ?n < 5"
    and W: "square_matrix ?n (mat_div (cotangent_kernel env Nodes Faces) 2)"
    and nb: "neighbors_ok ?n (find_neighbors env Faces ?n)"
    and fs: "faces_ok ?n Faces"
    and inc: "incident_ok ?n (length (area_spec Nodes Faces)) (find_faces_at_vertices env Faces ?n)"
    by (simp_all add: wf_geo_def Let_def square_matrix_mat_div)
  show ?thesis
    by (simp add: geometric_laplacian_def Let_def n stiffness_spec [OF W nb] area_spec_ok [OF fs]
        masses_spec [OF inc] toarray_def stiffness_of_def geo_mass_of_def)
qed

lemma fem_laplacian_char:
  assumes "wf_fem env Nodes Faces"
  shows "fem_laplacian env Nodes Faces =
           ([], solve_and_invert env (stiffness_of env Nodes Faces) (fem_mass_of env Nodes Faces))"
proof -
  let ?n = "length Nodes"
  from assms have n: "\<not> ?n < 5"
    and W: "square_matrix ?n (mat_div (cotangent_kernel env Nodes Faces) 2)"
    and nb: "neighbors_ok ?n (find_neighbors env Faces ?n)"
    and fs: "faces_ok ?n Faces"
    and inc: "incident_ok ?n (length (area_spec Nodes Faces)) (find_faces_at_vertices env Faces ?n)"
    and ed: "edges_ok ?n (length (area_spec Nodes Faces)) (find_edges env Faces)
               (find_faces_at_edges env Faces)"
    by (simp_all add: wf_fem_def wf_geo_def Let_def square_matrix_mat_div)
  show ?thesis
    by (simp add: fem_laplacian_def Let_def n stiffness_spec [OF W nb] area_spec_ok [OF fs]
        fem_mass_spec [OF ed inc] toarray_def stiffness_of_def fem_mass_of_def)
qed

subsection \<open>The example mesh is well formed\<close>

lemma wf_fem_demo: "wf_fem demo_env demo_nodes demo_faces"
  by code_simp

lemma wf_geo_demo: "wf_geo demo_env demo_nodes demo_faces"
  using wf_fem_demo by (simp add: wf_fem_def)

lemma demo_eigs_3: "eigs demo_env A 3 M = Inr [1, 2, 3]"
  by (simp add: demo_env_def demo_eigs_def upt_rec)

section \<open>The claims\<close>

subsection \<open>The two pipelines\<close>

text \<open>
  C1: with fewer than 5 vertices both pipelines print the message and return the array of
  five -1, whatever the collaborators would have computed: none of them is called and no
  matrix is built. With at least 5 vertices, a well-formed mesh and a solver that returns
  three eigenvalues for the pipeline's problem, each pipeline returns exactly three values.
\<close>

theorem spectrum_size:
  "(length Nodes < 5 \<longrightarrow>
      geometric_laplacian env Nodes Faces = ([too_small_message], Inr sentinel) \<and>
      fem_laplacian env Nodes Faces = ([too_small_message], Inr sentinel) \<and>
      sentinel = [CFin (- 1), CFin (- 1), CFin (- 1), CFin (- 1), CFin (- 1)]) \<and>
   (wf_fem env Nodes Faces \<and>
    eigs env (stiffness_of env Nodes Faces) 3 (geo_mass_of env Nodes Faces) = Inr gs \<and>
    length gs = 3 \<and>
    eigs env (stiffness_of env Nodes Faces) 3 (fem_mass_of env Nodes Faces) = Inr fs \<and>
    length fs = 3 \<longrightarrow>
      geometric_laplacian env Nodes Faces = ([], Inr (map np_reciprocal gs)) \<and>
      length (map np_reciprocal gs) = 3 \<and>
      fem_laplacian env Nodes Faces = ([], Inr (map np_reciprocal fs)) \<and>
      length (map np_reciprocal fs) = 3)"
proof (intro conjI impI)
  assume "length Nodes < 5"
  then show "geometric_laplacian env Nodes Faces = ([too_small_message], Inr sentinel)"
    and "fem_laplacian env Nodes Faces = ([too_small_message], Inr sentinel)"
    by (simp_all add: geometric_laplacian_def fem_laplacian_def)
next
  show "sentinel = [CFin (- 1), CFin (- 1), CFin (- 1), CFin (- 1), CFin (- 1)]"
    by (simp add: sentinel_def)
next
  assume h: "wf_fem env Nodes Faces \<and>
    eigs env (stiffness_of env Nodes Faces) 3 (geo_mass_of env Nodes Faces) = Inr gs \<and>
    length gs = 3 \<and>
    eigs env (stiffness_of env Nodes Faces) 3 (fem_mass_of env Nodes Faces) = Inr fs \<and>
    length fs = 3"
  then have geo: "wf_geo env Nodes Faces" by (simp add: wf_fem_def)
  from h show "geometric_laplacian env Nodes Faces = ([], Inr (map np_reciprocal gs))"
    by (simp add: geometric_laplacian_char [OF geo] solve_and_invert_def)
  from h show "fem_laplacian env Nodes Faces = ([], Inr (map np_reciprocal fs))"
    by (simp add: fem_laplacian_char solve_and_invert_def)
  from h show "length (map np_reciprocal gs) = 3" and "length (map np_reciprocal fs) = 3"
    by simp_all
qed

theorem spectrum_size_witness:
  "geometric_laplacian demo_env (take 4 demo_nodes) demo_faces = ([too_small_message], Inr sentinel) \<and>
   fem_laplacian demo_env (take 4 demo_nodes) demo_faces = ([too_small_message], Inr sentinel) \<and>
   geometric_laplacian demo_env demo_nodes demo_faces = ([], Inr [CFin 1, CFin (1 / 2), CFin (1 / 3)]) \<and>
   fem_laplacian demo_env demo_nodes demo_faces = ([], Inr [CFin 1, CFin (1 / 2), CFin (1 / 3)])"
proof -
  have small: "length (take 4 demo_nodes) < 5"
    by simp
  have solved: "eigs demo_env (stiffness_of demo_env demo_nodes demo_faces) 3
                  (geo_mass_of demo_env demo_nodes demo_faces) = Inr [1, 2, 3]"
    "eigs demo_env (stiffness_of demo_env demo_nodes demo_faces) 3
                  (fem_mass_of demo_env demo_nodes demo_faces) = Inr [1, 2, 3]"
    by (rule demo_eigs_3)+
  show ?thesis
    using spectrum_size [where env = demo_env and Nodes = "take 4 demo_nodes" and Faces = demo_faces]
      spectrum_size [where env = demo_env and Nodes = demo_nodes and Faces = demo_faces
        and gs = "[1, 2, 3]" and fs = "[1, 2, 3]"]
      small wf_fem_demo solved
    by (simp add: np_reciprocal_def)
qed

text \<open>
  C6: each pipeline asks the solver for \<open>k = 3\<close> eigenvalues of the pair (stiffness
  matrix, mass matrix), the mass matrix being \<open>D\<close> in the geometric pipeline and \<open>B\<close> in
  the FEM pipeline, and returns \<open>1 / \<lambda>\<close> for each value \<open>\<lambda>\<close> in the order the solver gave
  them (the non-finite value of numpy where \<open>\<lambda> = 0\<close>); an exception of the solver is
  passed on.
\<close>

theorem reciprocal_spectrum:
  "wf_fem env Nodes Faces \<Longrightarrow>
     geometric_laplacian env Nodes Faces =
       ([], case eigs env (stiffness_of env Nodes Faces) 3 (geo_mass_of env Nodes Faces) of
              Inl e \<Rightarrow> Inl e
            | Inr eigenvalues \<Rightarrow>
                Inr (map (\<lambda>x. if x = 0 then CNonFinite else CFin (1 / x)) eigenvalues)) \<and>
     fem_laplacian env Nodes Faces =
       ([], case eigs env (stiffness_of env Nodes Faces) 3 (fem_mass_of env Nodes Faces) of
              Inl e \<Rightarrow> Inl e
            | Inr eigenvalues \<Rightarrow>
                Inr (map (\<lambda>x. if x = 0 then CNonFinite else CFin (1 / x)) eigenvalues))"
proof
  assume wf: "wf_fem env Nodes Faces"
  then have geo: "wf_geo env Nodes Faces" by (simp add: wf_fem_def)
  have inv: "map np_reciprocal xs = map (\<lambda>x. if x = 0 then CNonFinite else CFin (1 / x)) xs" for xs
    by (simp add: np_reciprocal_def)
  show "geometric_laplacian env Nodes Faces =
       ([], case eigs env (stiffness_of env Nodes Faces) 3 (geo_mass_of env Nodes Faces) of
              Inl e \<Rightarrow> Inl e
            | Inr eigenvalues \<Rightarrow>
                Inr (map (\<lambda>x. if x = 0 then CNonFinite else CFin (1 / x)) eigenvalues))"
    unfolding geometric_laplacian_char [OF geo] solve_and_invert_def
    by (cases "eigs env (stiffness_of env Nodes Faces) 3 (geo_mass_of env Nodes Faces)")
      (simp_all add: inv)
  show "fem_laplacian env Nodes Faces =
       ([], case eigs env (stiffness_of env Nodes Faces) 3 (fem_mass_of env Nodes Faces) of
              Inl e \<Rightarrow> Inl e
            | Inr eigenvalues \<Rightarrow>
                Inr (map (\<lambda>x. if x = 0 then CNonFinite else CFin (1 / x)) eigenvalues))"
    unfolding fem_laplacian_char [OF wf] solve_and_invert_def
    by (cases "eigs env (stiffness_of env Nodes Faces) 3 (fem_mass_of env Nodes Faces)")
      (simp_all add: inv)
qed

theorem reciprocal_spectrum_witness:
  "eigs demo_env (stiffness_of demo_env demo_nodes demo_faces) 3
     (geo_mass_of demo_env demo_nodes demo_faces) = Inr [1, 2, 3] \<and>
   geometric_laplacian demo_env demo_nodes demo_faces =
     ([], Inr [CFin 1, CFin (1 / 2), CFin (1 / 3)]) \<and>
   eigs demo_env (stiffness_of demo_env demo_nodes demo_faces) 3
     (fem_mass_of demo_env demo_nodes demo_faces) = Inr [1, 2, 3] \<and>
   fem_laplacian demo_env demo_nodes demo_faces =
     ([], Inr [CFin 1, CFin (1 / 2), CFin (1 / 3)])"
  using reciprocal_spectrum [OF wf_fem_demo] by (simp add: demo_eigs_3)

subsection \<open>The stiffness matrix\<close>

lemma np_div_minus: "np_div (x - y) c = np_div x c - np_div y c"
  by (cases x; cases y) (simp_all add: minus_npfloat_def plus_npfloat_def diff_divide_distrib)

lemma np_div_plus: "np_div (x + y) c = np_div x c + np_div y c"
  by (cases x; cases y) (simp_all add: plus_npfloat_def add_divide_distrib)

lemma np_div_zero_any [simp]: "np_div 0 c = 0"
  by (simp add: zero_npfloat_def)

lemma np_div_sum_list: "np_div (sum_list xs) c = sum_list (map (\<lambda>x. np_div x c) xs)"
  by (induction xs) (simp_all add: np_div_plus)

lemma np_div_commute: "np_div (np_div x a) b = np_div (np_div x b) a"
  by (cases x) simp_all

lemma tabulate_cong:
  "(\<And>i j. i < n \<Longrightarrow> j < n \<Longrightarrow> f i j = g i j) \<Longrightarrow>
     map (\<lambda>i. map (\<lambda>j. f i j) [0..<n]) [0..<n] = map (\<lambda>i. map (\<lambda>j. g i j) [0..<n]) [0..<n]"
  by simp

lemma A_spec_halved:
  assumes W: "square_matrix n W" and nb: "neighbors_ok n Neighbor"
  shows "A_spec (mat_div W 2) Neighbor = mat_div (A_spec W Neighbor) 2"
proof -
  from W have n: "length W = n" by (simp add: square_matrix_def)
  have entry: "mat_div W 2 ! i ! k = np_div (W ! i ! k) 2" if "i < n" "k < n" for i k
    using that W by (simp add: mat_div_def square_matrix_def)
  have row: "map (\<lambda>k. mat_div W 2 ! i ! k) (Neighbor ! i) =
               map (\<lambda>k. np_div (W ! i ! k) 2) (Neighbor ! i)" if "i < n" for i
    using that nb by (intro map_cong refl entry) (simp_all add: neighbors_ok_def)
  have len: "length (mat_div W 2) = n"
    by (simp add: mat_div_def n)
  have cell: "(if i = j then np_div (sum_list (map (\<lambda>k. mat_div W 2 ! i ! k) (Neighbor ! i))) 3 else 0)
                - mat_div W 2 ! i ! j =
              np_div ((if i = j then np_div (sum_list (map (\<lambda>k. W ! i ! k) (Neighbor ! i))) 3 else 0)
                - W ! i ! j) 2" if "i < n" "j < n" for i j
    using that
    by (cases "i = j")
      (simp_all add: row entry np_div_minus np_div_sum_list o_def np_div_commute [of _ 3 2])
  have "A_spec (mat_div W 2) Neighbor =
          map (\<lambda>i. map (\<lambda>j. np_div ((if i = j
                 then np_div (sum_list (map (\<lambda>k. W ! i ! k) (Neighbor ! i))) 3 else 0)
                 - W ! i ! j) 2) [0..<n]) [0..<n]"
    unfolding A_spec_def len
    by (rule tabulate_cong) (rule cell)
  also have "\<dots> = mat_div (A_spec W Neighbor) 2"
    by (simp add: A_spec_def n mat_div_tabulate)
  finally show ?thesis .
qed

lemma square_matrix_A_spec: "square_matrix (length W) (A_spec W Neighbor)"
  unfolding A_spec_def by (rule square_matrix_tabulate)

lemma A_spec_entry:
  "i < length W \<Longrightarrow> j < length W \<Longrightarrow>
     A_spec W Neighbor ! i ! j =
       (if i = j then np_div (sum_list (map (\<lambda>k. W ! i ! k) (Neighbor ! i))) 3 else 0) - W ! i ! j"
  by (simp add: A_spec_def)

lemma stiffness_of_pipeline:
  assumes "wf_geo env Nodes Faces"
  shows "stiffness Faces (mat_div (cotangent_kernel env Nodes Faces) 2)
           (find_neighbors env Faces (length Nodes)) = Inr (stiffness_of env Nodes Faces)"
proof -
  from assms have W: "square_matrix (length Nodes) (mat_div (cotangent_kernel env Nodes Faces) 2)"
    and nb: "neighbors_ok (length Nodes) (find_neighbors env Faces (length Nodes))"
    by (simp_all add: wf_geo_def Let_def square_matrix_mat_div)
  show ?thesis
    unfolding stiffness_of_def by (rule stiffness_spec [OF W nb])
qed

text \<open>
  C3: for an \<open>n \<times> n\<close> weight matrix \<open>W\<close> and a neighbour table with indices below \<open>n\<close>, the
  matrix assembled by \<open>gen_V\<close> and the subtraction has the entry
  \<open>(if i = j then (\<Sum>k\<leftarrow>Neighbor[i]. W[i,k]) / 3 else 0) - W[i,j]\<close> at every \<open>(i, j)\<close>;
  and both pipelines hand this one matrix, built from the halved weights, to the solver.
\<close>

theorem stiffness_matrix:
  "(square_matrix n W \<and> neighbors_ok n Neighbor \<longrightarrow>
      stiffness Faces W Neighbor = Inr (A_spec W Neighbor) \<and>
      square_matrix n (A_spec W Neighbor) \<and>
      (\<forall>i j. i < n \<and> j < n \<longrightarrow>
         A_spec W Neighbor ! i ! j =
           (if i = j then np_div (sum_list (map (\<lambda>k. W ! i ! k) (Neighbor ! i))) 3 else 0)
             - W ! i ! j)) \<and>
   (wf_fem env Nodes Faces \<longrightarrow>
      stiffness Faces (mat_div (cotangent_kernel env Nodes Faces) 2)
        (find_neighbors env Faces (length Nodes)) = Inr (stiffness_of env Nodes Faces) \<and>
      geometric_laplacian env Nodes Faces =
        ([], solve_and_invert env (stiffness_of env Nodes Faces) (geo_mass_of env Nodes Faces)) \<and>
      fem_laplacian env Nodes Faces =
        ([], solve_and_invert env (stiffness_of env Nodes Faces) (fem_mass_of env Nodes Faces)))"
proof (intro conjI impI allI)
  assume h: "square_matrix n W \<and> neighbors_ok n Neighbor"
  then have n: "length W = n" by (simp add: square_matrix_def)
  from h show "stiffness Faces W Neighbor = Inr (A_spec W Neighbor)"
    by (intro stiffness_spec [of n]) simp_all
  show "square_matrix n (A_spec W Neighbor)"
    using square_matrix_A_spec [of W Neighbor] by (simp add: n)
  fix i j assume "i < n \<and> j < n"
  then show "A_spec W Neighbor ! i ! j =
           (if i = j then np_div (sum_list (map (\<lambda>k. W ! i ! k) (Neighbor ! i))) 3 else 0)
             - W ! i ! j"
    by (simp add: A_spec_entry n)
next
  assume wf: "wf_fem env Nodes Faces"
  then have geo: "wf_geo env Nodes Faces" by (simp add: wf_fem_def)
  show "stiffness Faces (mat_div (cotangent_kernel env Nodes Faces) 2)
        (find_neighbors env Faces (length Nodes)) = Inr (stiffness_of env Nodes Faces)"
    by (rule stiffness_of_pipeline [OF geo])
  show "geometric_laplacian env Nodes Faces =
        ([], solve_and_invert env (stiffness_of env Nodes Faces) (geo_mass_of env Nodes Faces))"
    by (rule geometric_laplacian_char [OF geo])
  show "fem_laplacian env Nodes Faces =
        ([], solve_and_invert env (stiffness_of env Nodes Faces) (fem_mass_of env Nodes Faces))"
    by (rule fem_laplacian_char [OF wf])
qed

lemma demo_W_square: "square_matrix 5 demo_W"
  by code_simp

lemma demo_neighbors_ok: "neighbors_ok 5 demo_neighbors"
  by code_simp

theorem stiffness_matrix_witness:
  "stiffness demo_faces demo_W demo_neighbors = Inr (A_spec demo_W demo_neighbors) \<and>
   A_spec demo_W demo_neighbors ! 0 ! 0 = Fin (8 / 9) \<and>
   A_spec demo_W demo_neighbors ! 0 ! 4 = Fin (- (8 / 3)) \<and>
   A_spec demo_W demo_neighbors ! 0 ! 1 = Fin 0 \<and>
   geometric_laplacian demo_env demo_nodes demo_faces =
     ([], solve_and_invert demo_env (stiffness_of demo_env demo_nodes demo_faces)
            (geo_mass_of demo_env demo_nodes demo_faces)) \<and>
   fem_laplacian demo_env demo_nodes demo_faces =
     ([], solve_and_invert demo_env (stiffness_of demo_env demo_nodes demo_faces)
            (fem_mass_of demo_env demo_nodes demo_faces))"
proof -
  note inst = stiffness_matrix [where n = 5 and W = demo_W and Neighbor = demo_neighbors
      and env = demo_env and Nodes = demo_nodes and Faces = demo_faces]
  from inst demo_W_square demo_neighbors_ok
  have entries: "\<forall>i j. i < 5 \<and> j < 5 \<longrightarrow>
         A_spec demo_W demo_neighbors ! i ! j =
           (if i = j then np_div (sum_list (map (\<lambda>k. demo_W ! i ! k) (demo_neighbors ! i))) 3 else 0)
             - demo_W ! i ! j"
    and rest: "stiffness demo_faces demo_W demo_neighbors = Inr (A_spec demo_W demo_neighbors)"
    by simp_all
  have "A_spec demo_W demo_neighbors ! 0 ! 0 = Fin (8 / 9)"
    "A_spec demo_W demo_neighbors ! 0 ! 4 = Fin (- (8 / 3))"
    "A_spec demo_W demo_neighbors ! 0 ! 1 = Fin 0"
    using entries
    by (simp_all add: demo_W_def demo_neighbors_def plus_npfloat_def minus_npfloat_def
        zero_npfloat_def)
  with rest inst wf_fem_demo show ?thesis
    by simp
qed

lemma mat_div_2: "mat_div M 2 = halved_spec M"
proof -
  have "np_div x 2 = half_spec x" for x
    by (cases x) (simp_all add: half_spec_def)
  then show ?thesis
    by (simp add: mat_div_def halved_spec_def)
qed

text \<open>
  C10 (implicit): both pipelines halve the weight matrix of the cotangent kernel before
  the stiffness matrix is assembled, so the matrix handed to the solver is, entry by
  entry, half of the matrix that the formula of C3 gives on the kernel's own output:
  \<open>x / 2\<close> for a finite entry \<open>x\<close>.
\<close>

theorem halved_weights:
  "(wf_geo env Nodes Faces \<longrightarrow>
      stiffness Faces (mat_div (cotangent_kernel env Nodes Faces) 2)
        (find_neighbors env Faces (length Nodes)) =
        Inr (halved_spec (A_spec (cotangent_kernel env Nodes Faces)
               (find_neighbors env Faces (length Nodes)))) \<and>
      geometric_laplacian env Nodes Faces =
        ([], solve_and_invert env
               (halved_spec (A_spec (cotangent_kernel env Nodes Faces)
                  (find_neighbors env Faces (length Nodes))))
               (geo_mass_of env Nodes Faces))) \<and>
   (wf_fem env Nodes Faces \<longrightarrow>
      fem_laplacian env Nodes Faces =
        ([], solve_and_invert env
               (halved_spec (A_spec (cotangent_kernel env Nodes Faces)
                  (find_neighbors env Faces (length Nodes))))
               (fem_mass_of env Nodes Faces)))"
proof -
  have half: "stiffness_of env Nodes Faces =
      halved_spec (A_spec (cotangent_kernel env Nodes Faces) (find_neighbors env Faces (length Nodes)))"
    if "wf_geo env Nodes Faces"
  proof -
    from that have W: "square_matrix (length Nodes) (cotangent_kernel env Nodes Faces)"
      and nb: "neighbors_ok (length Nodes) (find_neighbors env Faces (length Nodes))"
      by (simp_all add: wf_geo_def Let_def)
    show ?thesis
      unfolding stiffness_of_def mat_div_2 [symmetric] by (rule A_spec_halved [OF W nb])
  qed
  show ?thesis
  proof (intro conjI impI)
    assume geo: "wf_geo env Nodes Faces"
    show "stiffness Faces (mat_div (cotangent_kernel env Nodes Faces) 2)
        (find_neighbors env Faces (length Nodes)) =
        Inr (halved_spec (A_spec (cotangent_kernel env Nodes Faces)
               (find_neighbors env Faces (length Nodes))))"
      using stiffness_of_pipeline [OF geo] by (simp add: half [OF geo])
    show "geometric_laplacian env Nodes Faces =
        ([], solve_and_invert env
               (halved_spec (A_spec (cotangent_kernel env Nodes Faces)
                  (find_neighbors env Faces (length Nodes))))
               (geo_mass_of env Nodes Faces))"
      using geometric_laplacian_char [OF geo] by (simp add: half [OF geo])
  next
    assume wf: "wf_fem env Nodes Faces"
    then have geo: "wf_geo env Nodes Faces" by (simp add: wf_fem_def)
    show "fem_laplacian env Nodes Faces =
        ([], solve_and_invert env
               (halved_spec (A_spec (cotangent_kernel env Nodes Faces)
                  (find_neighbors env Faces (length Nodes))))
               (fem_mass_of env Nodes Faces))"
      using fem_laplacian_char [OF wf] by (simp add: half [OF geo])
  qed
qed

theorem halved_weights_witness:
  "stiffness demo_faces (mat_div demo_W 2) demo_neighbors =
     Inr (halved_spec (A_spec demo_W demo_neighbors)) \<and>
   A_spec demo_W demo_neighbors ! 0 ! 0 = Fin (8 / 9) \<and>
   halved_spec (A_spec demo_W demo_neighbors) ! 0 ! 0 = Fin (4 / 9) \<and>
   A_spec demo_W demo_neighbors ! 0 ! 4 = Fin (- (8 / 3)) \<and>
   halved_spec (A_spec demo_W demo_neighbors) ! 0 ! 4 = Fin (- (4 / 3)) \<and>
   geometric_laplacian demo_env demo_nodes demo_faces =
     ([], solve_and_invert demo_env (halved_spec (A_spec demo_W demo_neighbors))
            (geo_mass_of demo_env demo_nodes demo_faces)) \<and>
   fem_laplacian demo_env demo_nodes demo_faces =
     ([], solve_and_invert demo_env (halved_spec (A_spec demo_W demo_neighbors))
            (fem_mass_of demo_env demo_nodes demo_faces))"
proof -
  have "A_spec demo_W demo_neighbors ! 0 ! 0 = Fin (8 / 9)"
    "halved_spec (A_spec demo_W demo_neighbors) ! 0 ! 0 = Fin (4 / 9)"
    "A_spec demo_W demo_neighbors ! 0 ! 4 = Fin (- (8 / 3))"
    "halved_spec (A_spec demo_W demo_neighbors) ! 0 ! 4 = Fin (- (4 / 3))"
    by code_simp+
  then show ?thesis
    using halved_weights [where env = demo_env and Nodes = demo_nodes and Faces = demo_faces]
      wf_fem_demo wf_geo_demo
    by (simp add: demo_env_def)
qed

subsection \<open>The mass matrices\<close>

lemma demo_triangle_0: "triangle_area demo_nodes (0, 1, 4) = Inr (Fin 6)"
proof -
  have "triangle_area demo_nodes (0, 1, 4) =
      Inr (heron (linalg_norm (vsub (3, 0, 0) (0, 4, 0))) (linalg_norm (vsub (0, 4, 0) (0, 0, 0))) (linalg_norm (vsub (0, 0, 0) (3, 0, 0))))"
    by (simp add: triangle_area_def nth_err_def Let_def demo_nodes_def)
  also have "\<dots> = Inr (Fin 6)"
    by (simp only: vsub_def linalg_norm_def heron_def Let_def prod.case fl_steps)
  finally show ?thesis .
qed

lemma demo_triangle_1: "triangle_area demo_nodes (1, 2, 4) = Inr (Fin 6)"
proof -
  have "triangle_area demo_nodes (1, 2, 4) =
      Inr (heron (linalg_norm (vsub (0, 4, 0) ((- 3), 0, 0))) (linalg_norm (vsub ((- 3), 0, 0) (0, 0, 0))) (linalg_norm (vsub (0, 0, 0) (0, 4, 0))))"
    by (simp add: triangle_area_def nth_err_def Let_def demo_nodes_def)
  also have "\<dots> = Inr (Fin 6)"
    by (simp only: vsub_def linalg_norm_def heron_def Let_def prod.case fl_steps)
  finally show ?thesis .
qed

lemma demo_triangle_2: "triangle_area demo_nodes (2, 3, 4) = Inr (Fin 6)"
proof -
  have "triangle_area demo_nodes (2, 3, 4) =
      Inr (heron (linalg_norm (vsub ((- 3), 0, 0) (0, (- 4), 0))) (linalg_norm (vsub (0, (- 4), 0) (0, 0, 0))) (linalg_norm (vsub (0, 0, 0) ((- 3), 0, 0))))"
    by (simp add: triangle_area_def nth_err_def Let_def demo_nodes_def)
  also have "\<dots> = Inr (Fin 6)"
    by (simp only: vsub_def linalg_norm_def heron_def Let_def prod.case fl_steps)
  finally show ?thesis .
qed

lemma demo_triangle_3: "triangle_area demo_nodes (3, 0, 4) = Inr (Fin 6)"
proof -
  have "triangle_area demo_nodes (3, 0, 4) =
      Inr (heron (linalg_norm (vsub (0, (- 4), 0) (3, 0, 0))) (linalg_norm (vsub (3, 0, 0) (0, 0, 0))) (linalg_norm (vsub (0, 0, 0) (0, (- 4), 0))))"
    by (simp add: triangle_area_def nth_err_def Let_def demo_nodes_def)
  also have "\<dots> = Inr (Fin 6)"
    by (simp only: vsub_def linalg_norm_def heron_def Let_def prod.case fl_steps)
  finally show ?thesis .
qed

lemma sliver_012: "triangle_area sliver_nodes (0, 1, 2) = Inr (NaN)"
proof -
  have "triangle_area sliver_nodes (0, 1, 2) =
      Inr (heron (linalg_norm (vsub (0, 0, 0) (1, 1, 1))) (linalg_norm (vsub (1, 1, 1) (5, 5, 5))) (linalg_norm (vsub (5, 5, 5) (0, 0, 0))))"
    by (simp add: triangle_area_def nth_err_def Let_def sliver_nodes_def)
  also have "\<dots> = Inr (NaN)"
    by (simp only: vsub_def linalg_norm_def heron_def Let_def prod.case fl_steps)
  finally show ?thesis .
qed

lemma sliver_021: "triangle_area sliver_nodes (0, 2, 1) = Inr (Fin 0)"
proof -
  have "triangle_area sliver_nodes (0, 2, 1) =
      Inr (heron (linalg_norm (vsub (0, 0, 0) (5, 5, 5))) (linalg_norm (vsub (5, 5, 5) (1, 1, 1))) (linalg_norm (vsub (1, 1, 1) (0, 0, 0))))"
    by (simp add: triangle_area_def nth_err_def Let_def sliver_nodes_def)
  also have "\<dots> = Inr (Fin 0)"
    by (simp only: vsub_def linalg_norm_def heron_def Let_def prod.case fl_steps)
  finally show ?thesis .
qed

lemma needle_area: "triangle_area needle_nodes (0, 1, 2) = Inr (Fin 0)"
proof -
  have "triangle_area needle_nodes (0, 1, 2) =
      Inr (heron (linalg_norm (vsub (0, 0, 0) (67108868, 2, 8193))) (linalg_norm (vsub (67108868, 2, 8193) (201326604, 6, 24579))) (linalg_norm (vsub (201326604, 6, 24579) (0, 0, 0))))"
    by (simp add: triangle_area_def nth_err_def Let_def needle_nodes_def)
  also have "\<dots> = Inr (Fin 0)"
    by (simp only: vsub_def linalg_norm_def heron_def Let_def prod.case fl_steps)
  finally show ?thesis .
qed

lemma needle_turned_area: "triangle_area [(0, 0, 0), (2, 8193, 67108868), (6, 24579, 201326604)] (0, 1, 2) = Inr (NaN)"
proof -
  have "triangle_area [(0, 0, 0), (2, 8193, 67108868), (6, 24579, 201326604)] (0, 1, 2) =
      Inr (heron (linalg_norm (vsub (0, 0, 0) (2, 8193, 67108868))) (linalg_norm (vsub (2, 8193, 67108868) (6, 24579, 201326604))) (linalg_norm (vsub (6, 24579, 201326604) (0, 0, 0))))"
    by (simp add: triangle_area_def nth_err_def Let_def)
  also have "\<dots> = Inr (NaN)"
    by (simp only: vsub_def linalg_norm_def heron_def Let_def prod.case fl_steps)
  finally show ?thesis .
qed

lemma demo_area: "area demo_nodes demo_faces = Inr demo_areas"
  unfolding area_mapM demo_faces_def demo_areas_def
  by (simp only: mapM_err.simps bind_err.simps demo_triangle_0 demo_triangle_1
      demo_triangle_2 demo_triangle_3)

lemma demo_area_spec: "area_spec demo_nodes demo_faces = demo_areas"
  using area_spec_ok [of demo_nodes demo_faces] wf_geo_demo
  by (simp add: demo_area wf_geo_def Let_def)

lemma demo_fem_mass:
  "fem_mass demo_edges demo_faces_at_edges demo_areas 5 demo_neighbors demo_faces_at_nodes =
     Inr demo_B"
  by code_simp

lemma D_spec_entry:
  "i < n \<Longrightarrow> j < n \<Longrightarrow>
     D_spec n Areas FaN ! i ! j =
       (if i = j then np_div (sum_list (map (\<lambda>f. Areas ! f) (FaN ! i))) 3 else 0)"
  by (simp add: D_spec_def diag_spec_def)

lemma Q_spec_entry:
  "i < n \<Longrightarrow> j < n \<Longrightarrow>
     Q_spec n Areas FaN ! i ! j =
       (if i = j then np_div (sum_list (map (\<lambda>f. Areas ! f) (FaN ! i))) 6 else 0)"
  by (simp add: Q_spec_def diag_spec_def)

lemma P_spec_entry:
  "i < n \<Longrightarrow> j < n \<Longrightarrow>
     P_spec n edges fae Areas ! i ! j =
       (if (i, j) \<in> set edges then np_div (edge_area_sum fae Areas i j) 12 else 0)"
  by (simp add: P_spec_def P_entry_def)

lemma B_spec_entry:
  "i < n \<Longrightarrow> j < n \<Longrightarrow>
     B_spec n edges fae Areas FaN ! i ! j =
       P_spec n edges fae Areas ! i ! j + Q_spec n Areas FaN ! i ! j"
  by (simp add: B_spec_def P_spec_def Q_spec_def diag_spec_def Q_entry_def)

lemma masses_pipeline:
  assumes "wf_geo env Nodes Faces"
  shows "area Nodes Faces = Inr (area_spec Nodes Faces)"
    and "masses Nodes (area_spec Nodes Faces) (find_faces_at_vertices env Faces (length Nodes)) =
           Inr (geo_mass_of env Nodes Faces)"
proof -
  from assms have fs: "faces_ok (length Nodes) Faces"
    and inc: "incident_ok (length Nodes) (length (area_spec Nodes Faces))
                (find_faces_at_vertices env Faces (length Nodes))"
    by (simp_all add: wf_geo_def Let_def)
  show "area Nodes Faces = Inr (area_spec Nodes Faces)"
    by (rule area_spec_ok [OF fs])
  show "masses Nodes (area_spec Nodes Faces) (find_faces_at_vertices env Faces (length Nodes)) =
           Inr (geo_mass_of env Nodes Faces)"
    unfolding geo_mass_of_def by (rule masses_spec [OF inc])
qed

lemma fem_mass_pipeline:
  assumes "wf_fem env Nodes Faces"
  shows "fem_mass (find_edges env Faces) (find_faces_at_edges env Faces) (area_spec Nodes Faces)
           (length Nodes) (find_neighbors env Faces (length Nodes))
           (find_faces_at_vertices env Faces (length Nodes)) = Inr (fem_mass_of env Nodes Faces)"
proof -
  from assms have inc: "incident_ok (length Nodes) (length (area_spec Nodes Faces))
                (find_faces_at_vertices env Faces (length Nodes))"
    and ed: "edges_ok (length Nodes) (length (area_spec Nodes Faces)) (find_edges env Faces)
               (find_faces_at_edges env Faces)"
    by (simp_all add: wf_fem_def wf_geo_def Let_def)
  show ?thesis
    unfolding fem_mass_of_def by (rule fem_mass_spec [OF ed inc])
qed

text \<open>
  C4: \<open>masses\<close> returns the diagonal matrix whose entry \<open>(i, i)\<close> is a third of the sum of
  the areas of the faces listed for vertex \<open>i\<close>, with zeros elsewhere, and the geometric
  pipeline hands this matrix, built from the areas of the mesh, to the solver.
\<close>

theorem geometric_mass_matrix:
  "(incident_ok (length Nodes) (length Areas) FaN \<longrightarrow>
      masses Nodes Areas FaN = Inr (D_spec (length Nodes) Areas FaN) \<and>
      square_matrix (length Nodes) (D_spec (length Nodes) Areas FaN) \<and>
      (\<forall>i j. i < length Nodes \<and> j < length Nodes \<longrightarrow>
         D_spec (length Nodes) Areas FaN ! i ! j =
           (if i = j then np_div (sum_list (map (\<lambda>f. Areas ! f) (FaN ! i))) 3 else 0))) \<and>
   (wf_geo env Nodes Faces \<longrightarrow>
      area Nodes Faces = Inr (area_spec Nodes Faces) \<and>
      masses Nodes (area_spec Nodes Faces) (find_faces_at_vertices env Faces (length Nodes)) =
        Inr (geo_mass_of env Nodes Faces) \<and>
      geometric_laplacian env Nodes Faces =
        ([], solve_and_invert env (stiffness_of env Nodes Faces) (geo_mass_of env Nodes Faces)))"
proof (intro conjI impI allI)
  assume "incident_ok (length Nodes) (length Areas) FaN"
  then show "masses Nodes Areas FaN = Inr (D_spec (length Nodes) Areas FaN)"
    by (rule masses_spec)
  show "square_matrix (length Nodes) (D_spec (length Nodes) Areas FaN)"
    unfolding D_spec_def by (rule square_diag_spec)
  fix i j assume "i < length Nodes \<and> j < length Nodes"
  then show "D_spec (length Nodes) Areas FaN ! i ! j =
           (if i = j then np_div (sum_list (map (\<lambda>f. Areas ! f) (FaN ! i))) 3 else 0)"
    by (simp add: D_spec_entry)
next
  assume geo: "wf_geo env Nodes Faces"
  show "area Nodes Faces = Inr (area_spec Nodes Faces)"
    by (rule masses_pipeline(1) [OF geo])
  show "masses Nodes (area_spec Nodes Faces) (find_faces_at_vertices env Faces (length Nodes)) =
        Inr (geo_mass_of env Nodes Faces)"
    by (rule masses_pipeline(2) [OF geo])
  show "geometric_laplacian env Nodes Faces =
        ([], solve_and_invert env (stiffness_of env Nodes Faces) (geo_mass_of env Nodes Faces))"
    by (rule geometric_laplacian_char [OF geo])
qed

lemma demo_incident_ok: "incident_ok (length demo_nodes) (length demo_areas) demo_faces_at_nodes"
  by code_simp

lemma demo_edges_ok: "edges_ok 5 (length demo_areas) demo_edges demo_faces_at_edges"
  by code_simp

lemma demo_incident_ok_5: "incident_ok 5 (length demo_areas) demo_faces_at_nodes"
  by code_simp

theorem geometric_mass_matrix_witness:
  "masses demo_nodes demo_areas demo_faces_at_nodes =
     Inr (D_spec (length demo_nodes) demo_areas demo_faces_at_nodes) \<and>
   D_spec (length demo_nodes) demo_areas demo_faces_at_nodes ! 0 ! 0 = Fin 4 \<and>
   D_spec (length demo_nodes) demo_areas demo_faces_at_nodes ! 4 ! 4 = Fin 8 \<and>
   D_spec (length demo_nodes) demo_areas demo_faces_at_nodes ! 0 ! 4 = Fin 0 \<and>
   area demo_nodes demo_faces = Inr demo_areas \<and>
   geometric_laplacian demo_env demo_nodes demo_faces =
     ([], solve_and_invert demo_env (stiffness_of demo_env demo_nodes demo_faces)
            (geo_mass_of demo_env demo_nodes demo_faces))"
proof -
  note inst = geometric_mass_matrix [where Nodes = demo_nodes and Areas = demo_areas
      and FaN = demo_faces_at_nodes and env = demo_env and Faces = demo_faces]
  from inst demo_incident_ok
  have entries: "\<forall>i j. i < length demo_nodes \<and> j < length demo_nodes \<longrightarrow>
         D_spec (length demo_nodes) demo_areas demo_faces_at_nodes ! i ! j =
           (if i = j then np_div (sum_list (map (\<lambda>f. demo_areas ! f) (demo_faces_at_nodes ! i))) 3
            else 0)"
    and m: "masses demo_nodes demo_areas demo_faces_at_nodes =
              Inr (D_spec (length demo_nodes) demo_areas demo_faces_at_nodes)"
    by simp_all
  have len: "length demo_nodes = 5"
    by (simp add: demo_nodes_def)
  have "D_spec (length demo_nodes) demo_areas demo_faces_at_nodes ! 0 ! 0 = Fin 4"
    "D_spec (length demo_nodes) demo_areas demo_faces_at_nodes ! 4 ! 4 = Fin 8"
    "D_spec (length demo_nodes) demo_areas demo_faces_at_nodes ! 0 ! 4 = Fin 0"
    using entries
    by (simp_all add: len demo_areas_def demo_faces_at_nodes_def plus_npfloat_def zero_npfloat_def)
  with m inst wf_geo_demo show ?thesis
    by (simp add: demo_area_spec)
qed

text \<open>
  C5: \<open>gen_P\<close> returns the matrix whose entry \<open>(i, j)\<close> is a twelfth of the sum of the areas
  of the faces listed for the edge \<open>(i, j)\<close> where the edge list holds the pair \<open>(i, j)\<close> in
  this order, and zero elsewhere; \<open>gen_Q\<close> returns the diagonal matrix of a sixth of the
  sum of the areas of the faces listed for each vertex; \<open>B\<close> is their entrywise sum, and
  the FEM pipeline hands it to the solver.
\<close>

theorem fem_mass_matrix:
  "(edges_ok n (length Areas) edges fae \<and> incident_ok n (length Areas) FaN \<longrightarrow>
      gen_P edges fae Areas n = Inr (P_spec n edges fae Areas) \<and>
      gen_Q edges fae Areas n Nb FaN = Inr (Q_spec n Areas FaN) \<and>
      fem_mass edges fae Areas n Nb FaN = Inr (B_spec n edges fae Areas FaN) \<and>
      (\<forall>i j. i < n \<and> j < n \<longrightarrow>
         P_spec n edges fae Areas ! i ! j =
           (if (i, j) \<in> set edges then np_div (edge_area_sum fae Areas i j) 12 else 0) \<and>
         Q_spec n Areas FaN ! i ! j =
           (if i = j then np_div (sum_list (map (\<lambda>f. Areas ! f) (FaN ! i))) 6 else 0) \<and>
         B_spec n edges fae Areas FaN ! i ! j =
           P_spec n edges fae Areas ! i ! j + Q_spec n Areas FaN ! i ! j)) \<and>
   (wf_fem env Nodes Faces \<longrightarrow>
      fem_mass (find_edges env Faces) (find_faces_at_edges env Faces) (area_spec Nodes Faces)
        (length Nodes) (find_neighbors env Faces (length Nodes))
        (find_faces_at_vertices env Faces (length Nodes)) = Inr (fem_mass_of env Nodes Faces) \<and>
      fem_laplacian env Nodes Faces =
        ([], solve_and_invert env (stiffness_of env Nodes Faces) (fem_mass_of env Nodes Faces)))"
proof (intro conjI impI allI)
  assume h: "edges_ok n (length Areas) edges fae \<and> incident_ok n (length Areas) FaN"
  then show "gen_P edges fae Areas n = Inr (P_spec n edges fae Areas)"
    by (intro gen_P_spec) simp
  from h show "gen_Q edges fae Areas n Nb FaN = Inr (Q_spec n Areas FaN)"
    by (intro gen_Q_spec) simp
  from h show "fem_mass edges fae Areas n Nb FaN = Inr (B_spec n edges fae Areas FaN)"
    by (intro fem_mass_spec) simp_all
next
  fix i j assume "i < n \<and> j < n"
  then show "P_spec n edges fae Areas ! i ! j =
           (if (i, j) \<in> set edges then np_div (edge_area_sum fae Areas i j) 12 else 0)"
    and "Q_spec n Areas FaN ! i ! j =
           (if i = j then np_div (sum_list (map (\<lambda>f. Areas ! f) (FaN ! i))) 6 else 0)"
    and "B_spec n edges fae Areas FaN ! i ! j =
           P_spec n edges fae Areas ! i ! j + Q_spec n Areas FaN ! i ! j"
    by (simp_all only: P_spec_entry Q_spec_entry B_spec_entry)
next
  assume wf: "wf_fem env Nodes Faces"
  show "fem_mass (find_edges env Faces) (find_faces_at_edges env Faces) (area_spec Nodes Faces)
        (length Nodes) (find_neighbors env Faces (length Nodes))
        (find_faces_at_vertices env Faces (length Nodes)) = Inr (fem_mass_of env Nodes Faces)"
    by (rule fem_mass_pipeline [OF wf])
  show "fem_laplacian env Nodes Faces =
        ([], solve_and_invert env (stiffness_of env Nodes Faces) (fem_mass_of env Nodes Faces))"
    by (rule fem_laplacian_char [OF wf])
qed

lemma demo_env_sel:
  "cotangent_kernel demo_env Nodes Faces = demo_W"
  "find_neighbors demo_env Faces n = demo_neighbors"
  "find_faces_at_vertices demo_env Faces n = demo_faces_at_nodes"
  "find_faces_at_edges demo_env Faces = demo_faces_at_edges"
  "find_edges demo_env Faces = demo_edges"
  by (simp_all add: demo_env_def)

lemma length_demo_nodes: "length demo_nodes = 5"
  by (simp add: demo_nodes_def)

lemma demo_fem_mass_of: "fem_mass_of demo_env demo_nodes demo_faces = demo_B"
proof -
  have "fem_mass demo_edges demo_faces_at_edges demo_areas 5 demo_neighbors demo_faces_at_nodes =
          Inr (fem_mass_of demo_env demo_nodes demo_faces)"
    using fem_mass_pipeline [OF wf_fem_demo]
    by (simp add: demo_area_spec demo_env_sel length_demo_nodes)
  then show ?thesis
    by (simp add: demo_fem_mass)
qed

theorem fem_mass_matrix_witness:
  "gen_P demo_edges demo_faces_at_edges demo_areas 5 =
     Inr (P_spec 5 demo_edges demo_faces_at_edges demo_areas) \<and>
   gen_Q demo_edges demo_faces_at_edges demo_areas 5 demo_neighbors demo_faces_at_nodes =
     Inr (Q_spec 5 demo_areas demo_faces_at_nodes) \<and>
   fem_mass demo_edges demo_faces_at_edges demo_areas 5 demo_neighbors demo_faces_at_nodes =
     Inr (B_spec 5 demo_edges demo_faces_at_edges demo_areas demo_faces_at_nodes) \<and>
   B_spec 5 demo_edges demo_faces_at_edges demo_areas demo_faces_at_nodes = demo_B \<and>
   fem_laplacian demo_env demo_nodes demo_faces =
     ([], solve_and_invert demo_env (stiffness_of demo_env demo_nodes demo_faces) demo_B)"
proof -
  note inst = fem_mass_matrix [where n = 5 and Areas = demo_areas and edges = demo_edges
      and fae = demo_faces_at_edges and FaN = demo_faces_at_nodes and Nb = demo_neighbors
      and env = demo_env and Nodes = demo_nodes and Faces = demo_faces]
  from inst demo_edges_ok demo_incident_ok_5
  have "gen_P demo_edges demo_faces_at_edges demo_areas 5 =
          Inr (P_spec 5 demo_edges demo_faces_at_edges demo_areas)"
    and "gen_Q demo_edges demo_faces_at_edges demo_areas 5 demo_neighbors demo_faces_at_nodes =
          Inr (Q_spec 5 demo_areas demo_faces_at_nodes)"
    and B: "fem_mass demo_edges demo_faces_at_edges demo_areas 5 demo_neighbors demo_faces_at_nodes =
          Inr (B_spec 5 demo_edges demo_faces_at_edges demo_areas demo_faces_at_nodes)"
    by simp_all
  moreover from B have "B_spec 5 demo_edges demo_faces_at_edges demo_areas demo_faces_at_nodes = demo_B"
    by (simp add: demo_fem_mass)
  moreover from inst wf_fem_demo
  have "fem_laplacian demo_env demo_nodes demo_faces =
     ([], solve_and_invert demo_env (stiffness_of demo_env demo_nodes demo_faces) demo_B)"
    by (simp add: demo_fem_mass_of)
  ultimately show ?thesis
    by simp
qed

text \<open>
  C7, as stated, fails. On the example mesh the edge list holds \<open>(0, 1)\<close> and not
  \<open>(1, 0)\<close>; the FEM pipeline hands \<open>demo_B\<close> to the solver, where the entry \<open>(0, 1)\<close> is
  \<open>6 / 12\<close> and the entry \<open>(1, 0)\<close> is \<open>0\<close>.
\<close>

theorem fem_mass_asymmetric:
  "5 \<le> length demo_nodes \<and>
   area demo_nodes demo_faces = Inr demo_areas \<and>
   (0, 1) \<in> set (find_edges demo_env demo_faces) \<and>
   fem_mass (find_edges demo_env demo_faces) (find_faces_at_edges demo_env demo_faces) demo_areas
     (length demo_nodes) (find_neighbors demo_env demo_faces (length demo_nodes))
     (find_faces_at_vertices demo_env demo_faces (length demo_nodes)) = Inr demo_B \<and>
   fem_laplacian demo_env demo_nodes demo_faces =
     ([], solve_and_invert demo_env (stiffness_of demo_env demo_nodes demo_faces) demo_B) \<and>
   demo_B ! 0 ! 1 = Fin (1 / 2) \<and>
   demo_B ! 1 ! 0 = Fin 0 \<and>
   demo_B ! 0 ! 1 \<noteq> demo_B ! 1 ! 0"
proof -
  have "fem_laplacian demo_env demo_nodes demo_faces =
     ([], solve_and_invert demo_env (stiffness_of demo_env demo_nodes demo_faces) demo_B)"
    using fem_laplacian_char [OF wf_fem_demo] by (simp add: demo_fem_mass_of)
  moreover have "(0, 1) \<in> set demo_edges"
    by (simp add: demo_edges_def)
  moreover have "demo_B ! 0 ! 1 = Fin (1 / 2)" "demo_B ! 1 ! 0 = Fin 0"
    by (simp_all add: demo_B_def)
  ultimately show ?thesis
    by (simp add: demo_env_sel length_demo_nodes demo_area demo_fem_mass)
qed

text \<open>
  C7, amended: for an edge \<open>(i, j)\<close> of the edge list, \<open>B[i,j] = B[j,i]\<close> holds when the
  list also holds \<open>(j, i)\<close> and the areas of the faces listed for the two pairs have the
  same sum; when the list does not hold \<open>(j, i)\<close> and \<open>i \<noteq> j\<close>, \<open>B[i,j]\<close> is a twelfth of the
  area sum of \<open>(i, j)\<close> and \<open>B[j,i]\<close> is zero.
\<close>

theorem fem_mass_symmetry:
  "edges_ok n (length Areas) edges fae \<and> incident_ok n (length Areas) FaN \<and> (i, j) \<in> set edges \<longrightarrow>
     fem_mass edges fae Areas n Nb FaN = Inr (B_spec n edges fae Areas FaN) \<and>
     ((j, i) \<in> set edges \<and> edge_area_sum fae Areas j i = edge_area_sum fae Areas i j \<longrightarrow>
        B_spec n edges fae Areas FaN ! i ! j = B_spec n edges fae Areas FaN ! j ! i) \<and>
     ((j, i) \<notin> set edges \<and> i \<noteq> j \<longrightarrow>
        B_spec n edges fae Areas FaN ! i ! j = np_div (edge_area_sum fae Areas i j) 12 \<and>
        B_spec n edges fae Areas FaN ! j ! i = 0)"
proof (intro impI)
  assume h: "edges_ok n (length Areas) edges fae \<and> incident_ok n (length Areas) FaN \<and>
    (i, j) \<in> set edges"
  then have ij: "i < n" "j < n"
    by (auto simp: edges_ok_def)
  have B: "B_spec n edges fae Areas FaN ! a ! b =
             P_entry edges fae Areas a b + Q_entry Areas FaN a b" if "a < n" "b < n" for a b
    using that by (simp add: B_spec_def)
  have 1: "fem_mass edges fae Areas n Nb FaN = Inr (B_spec n edges fae Areas FaN)"
    using h by (intro fem_mass_spec) simp_all
  have 2: "B_spec n edges fae Areas FaN ! i ! j = B_spec n edges fae Areas FaN ! j ! i"
    if "(j, i) \<in> set edges \<and> edge_area_sum fae Areas j i = edge_area_sum fae Areas i j"
    using that h ij by (cases "i = j") (simp_all add: B P_entry_def Q_entry_def)
  have 3: "B_spec n edges fae Areas FaN ! i ! j = np_div (edge_area_sum fae Areas i j) 12 \<and>
        B_spec n edges fae Areas FaN ! j ! i = 0"
    if "(j, i) \<notin> set edges \<and> i \<noteq> j"
    using that h ij by (simp add: B P_entry_def Q_entry_def)
  from 1 2 3 show "fem_mass edges fae Areas n Nb FaN = Inr (B_spec n edges fae Areas FaN) \<and>
     ((j, i) \<in> set edges \<and> edge_area_sum fae Areas j i = edge_area_sum fae Areas i j \<longrightarrow>
        B_spec n edges fae Areas FaN ! i ! j = B_spec n edges fae Areas FaN ! j ! i) \<and>
     ((j, i) \<notin> set edges \<and> i \<noteq> j \<longrightarrow>
        B_spec n edges fae Areas FaN ! i ! j = np_div (edge_area_sum fae Areas i j) 12 \<and>
        B_spec n edges fae Areas FaN ! j ! i = 0)"
    by blast
qed

theorem fem_mass_symmetry_witness:
  "fem_mass demo_edges demo_faces_at_edges demo_areas 5 demo_neighbors demo_faces_at_nodes =
     Inr (B_spec 5 demo_edges demo_faces_at_edges demo_areas demo_faces_at_nodes) \<and>
   B_spec 5 demo_edges demo_faces_at_edges demo_areas demo_faces_at_nodes ! 0 ! 1 = Fin (1 / 2) \<and>
   B_spec 5 demo_edges demo_faces_at_edges demo_areas demo_faces_at_nodes ! 1 ! 0 = 0 \<and>
   B_spec 5 [(0, 1), (1, 0)] demo_faces_at_edges demo_areas demo_faces_at_nodes ! 0 ! 1 =
     B_spec 5 [(0, 1), (1, 0)] demo_faces_at_edges demo_areas demo_faces_at_nodes ! 1 ! 0"
proof -
  have one_way: "edges_ok 5 (length demo_areas) demo_edges demo_faces_at_edges \<and>
      incident_ok 5 (length demo_areas) demo_faces_at_nodes \<and> (0, 1) \<in> set demo_edges"
    and missing: "(1, 0) \<notin> set demo_edges \<and> (0::nat) \<noteq> 1"
    and both_ways: "edges_ok 5 (length demo_areas) [(0, 1), (1, 0)] demo_faces_at_edges \<and>
      incident_ok 5 (length demo_areas) demo_faces_at_nodes \<and> (0, 1) \<in> set [(0::nat, 1::nat), (1, 0)]"
    and same: "(1, 0) \<in> set [(0::nat, 1::nat), (1, 0)] \<and>
      edge_area_sum demo_faces_at_edges demo_areas 1 0 = edge_area_sum demo_faces_at_edges demo_areas 0 1"
    and twelfth: "np_div (edge_area_sum demo_faces_at_edges demo_areas 0 1) 12 = Fin (1 / 2)"
    by code_simp+
  from fem_mass_symmetry [where n = 5 and Areas = demo_areas and edges = demo_edges
      and fae = demo_faces_at_edges and FaN = demo_faces_at_nodes and Nb = demo_neighbors
      and i = 0 and j = 1] one_way missing twelfth
  have "fem_mass demo_edges demo_faces_at_edges demo_areas 5 demo_neighbors demo_faces_at_nodes =
     Inr (B_spec 5 demo_edges demo_faces_at_edges demo_areas demo_faces_at_nodes)"
    "B_spec 5 demo_edges demo_faces_at_edges demo_areas demo_faces_at_nodes ! 0 ! 1 = Fin (1 / 2)"
    "B_spec 5 demo_edges demo_faces_at_edges demo_areas demo_faces_at_nodes ! 1 ! 0 = 0"
    by simp_all
  moreover from fem_mass_symmetry [where n = 5 and Areas = demo_areas and edges = "[(0, 1), (1, 0)]"
      and fae = demo_faces_at_edges and FaN = demo_faces_at_nodes and Nb = demo_neighbors
      and i = 0 and j = 1] both_ways same
  have "B_spec 5 [(0, 1), (1, 0)] demo_faces_at_edges demo_areas demo_faces_at_nodes ! 0 ! 1 =
     B_spec 5 [(0, 1), (1, 0)] demo_faces_at_edges demo_areas demo_faces_at_nodes ! 1 ! 0"
    by blast
  ultimately show ?thesis
    by simp
qed

subsection \<open>The areas\<close>

lemma round_even_minus: "round_even (- y) = - round_even y"
proof (cases "y \<in> \<int>")
  case True
  then obtain k where y: "y = of_int k"
    by (auto elim: Ints_cases)
  have "round_even (of_int k) = k" for k
    by (simp add: round_even_def)
  from this [of k] this [of "- k"] show ?thesis
    by (simp add: y)
next
  case False
  let ?f = "\<lfloor>y\<rfloor>"
  have "of_int ?f \<noteq> y"
    using False by (metis Ints_of_int)
  then have f: "of_int ?f < y" "y < of_int ?f + 1"
    using of_int_floor_le [of y] floor_correct [of y] by linarith+
  have nf: "\<lfloor>- y\<rfloor> = - ?f - 1"
  proof (rule floor_unique)
    have eq: "of_int (- ?f - 1) = - of_int ?f - (1::real)"
      by simp
    show "of_int (- ?f - 1) \<le> - y"
      unfolding eq using f(2) by linarith
    show "- y < of_int (- ?f - 1) + 1"
      unfolding eq using f(1) by linarith
  qed
  show ?thesis
  proof (cases "y - of_int ?f < 1 / 2")
    case True
    then show ?thesis
      using f by (simp add: round_even_def nf Let_def)
  next
    case False
    note ge = this
    show ?thesis
    proof (cases "1 / 2 < y - of_int ?f")
      case True
      then show ?thesis
        using f ge by (simp add: round_even_def nf Let_def)
    next
      case False
      with ge have "y - of_int ?f = 1 / 2" by simp
      then show ?thesis
        by (simp add: round_even_def nf Let_def)
    qed
  qed
qed

lemma exponent_minus: "exponent (- x) = exponent x"
  by (simp add: exponent_def)

lemma fl_minus: "fl (- x) = fneg (fl x)"
  by (simp add: fl_def Let_def exponent_minus round_even_minus)

lemma fmul_fneg_fneg: "fmul (fneg x) (fneg x) = fmul x x"
  by (cases x) simp_all

lemma vsub_commute:
  "vsub q p = (case vsub p q of (a, b, c) \<Rightarrow> (fneg a, fneg b, fneg c))"
proof -
  have neg: "fl (x - y) = fneg (fl (y - x))" for x y :: real
    using fl_minus [of "y - x"] by simp
  obtain x y z x' y' z' where p: "p = (x, y, z)" and q: "q = (x', y', z')"
    by (cases p, cases q) auto
  show ?thesis
    by (simp add: vsub_def p q neg [of x' x] neg [of y' y] neg [of z' z])
qed

lemma linalg_norm_vsub_commute: "linalg_norm (vsub q p) = linalg_norm (vsub p q)"
  by (cases "vsub p q") (simp add: vsub_commute [of q p] linalg_norm_def fmul_fneg_fneg)

lemma side_commute: "side Nodes j i = side Nodes i j"
  by (simp add: side_def linalg_norm_vsub_commute)

lemma vsub_vadd: "vsub (vadd d p) (vadd d q) = vsub p q"
  by (cases d; cases p; cases q) (simp add: vsub_def vadd_def)

lemma triangle_area_in_range:
  "t0 < length Nodes \<Longrightarrow> t1 < length Nodes \<Longrightarrow> t2 < length Nodes \<Longrightarrow>
     triangle_area Nodes (t0, t1, t2) =
       Inr (heron (side Nodes t0 t1) (side Nodes t1 t2) (side Nodes t2 t0))"
  by (simp add: triangle_area_def nth_err_def side_def Let_def)

lemma triangle_area_translation:
  "triangle_area (map (vadd d) Nodes) T = triangle_area Nodes T"
  by (cases T) (simp add: triangle_area_def nth_err_def vsub_vadd Let_def)

lemma area_translation: "area (map (vadd d) Nodes) Faces = area Nodes Faces"
proof -
  have "triangle_area (map (vadd d) Nodes) = triangle_area Nodes"
    by (rule ext) (rule triangle_area_translation)
  then show ?thesis
    by (simp add: area_mapM)
qed

lemma heron_as_radicand: "heron a b c = np_sqrt (heron_radicand a b c)"
  by (simp add: heron_def heron_radicand_def Let_def)

lemma mapM_err_Inl:
  "mapM_err f xs = Inl e \<Longrightarrow> \<exists>x \<in> set xs. f x = Inl e"
proof (induction xs)
  case Nil
  then show ?case by simp
next
  case (Cons x xs)
  then show ?case
    by (cases "f x"; cases "mapM_err f xs") auto
qed

lemma triangle_area_Inl: "triangle_area Nodes T = Inl e \<Longrightarrow> e = IndexError"
  by (cases T) (auto simp: triangle_area_def nth_err_def Let_def split: if_splits)

lemma area_Inl: "area Nodes Faces = Inl e \<Longrightarrow> e = IndexError"
  unfolding area_mapM by (blast dest: mapM_err_Inl triangle_area_Inl)

lemma rotation_axis_cycle: "rotation axis_cycle"
  by (simp add: rotation_def axis_cycle_def)

lemma needle_turned:
  "map (mat_vec axis_cycle) needle_nodes = [(0, 0, 0), (2, 8193, 67108868), (6, 24579, 201326604)]"
  by (simp add: needle_nodes_def mat_vec_def axis_cycle_def)


lemma sliver_radicand:
  "heron_radicand (side sliver_nodes 0 1) (side sliver_nodes 1 2) (side sliver_nodes 2 0) =
     Fin (- (7312934410831837 / 39614081257132168796771975168))"
proof -
  have "heron_radicand (side sliver_nodes 0 1) (side sliver_nodes 1 2) (side sliver_nodes 2 0) =
      heron_radicand (linalg_norm (vsub (0, 0, 0) (1, 1, 1))) (linalg_norm (vsub (1, 1, 1) (5, 5, 5)))
        (linalg_norm (vsub (5, 5, 5) (0, 0, 0)))"
    by (simp add: side_def sliver_nodes_def)
  also have "\<dots> = Fin (- (7312934410831837 / 39614081257132168796771975168))"
    by (simp only: vsub_def linalg_norm_def heron_radicand_def Let_def prod.case fl_steps)
  finally show ?thesis .
qed

text \<open>
  C2, as stated, fails: the area stage has no check of the radicand. On the three
  collinear points \<open>(0,0,0)\<close>, \<open>(1,1,1)\<close>, \<open>(5,5,5)\<close> as a face the side lengths round so
  that the radicand is negative, and the stage returns normally with NaN as the area.
\<close>

theorem degenerate_triangle_silent:
  "heron_radicand (side sliver_nodes 0 1) (side sliver_nodes 1 2) (side sliver_nodes 2 0) =
     Fin (- (7312934410831837 / 39614081257132168796771975168)) \<and>
   area sliver_nodes [(0, 1, 2)] = Inr [NaN]"
proof -
  have "area sliver_nodes [(0, 1, 2)] = Inr [NaN]"
    unfolding area_mapM by (simp only: mapM_err.simps bind_err.simps sliver_012)
  with sliver_radicand show ?thesis
    by simp
qed

text \<open>
  C2, amended: the only exception the area stage raises is IndexError, for a vertex index
  out of range. Whenever the indices are in range it returns one value per triangle,
  \<^verbatim>\<open>np.sqrt\<close> of the radicand that float64 arithmetic gives on the three computed side
  lengths; where that radicand is negative the value is NaN, and no exception is raised.
\<close>

theorem area_no_geometry_error:
  "(area Nodes Faces = Inl e \<longrightarrow> e = IndexError) \<and>
   (faces_ok (length Nodes) Faces \<longrightarrow>
      area Nodes Faces = Inr (area_spec Nodes Faces) \<and>
      length (area_spec Nodes Faces) = length Faces \<and>
      (\<forall>k t0 t1 t2. k < length Faces \<and> Faces ! k = (t0, t1, t2) \<longrightarrow>
         area_spec Nodes Faces ! k =
           np_sqrt (heron_radicand (side Nodes t0 t1) (side Nodes t1 t2) (side Nodes t2 t0)) \<and>
         (\<forall>r. heron_radicand (side Nodes t0 t1) (side Nodes t1 t2) (side Nodes t2 t0) = Fin r \<and> r < 0 \<longrightarrow>
            area_spec Nodes Faces ! k = NaN)))"
proof (intro conjI impI allI)
  assume "area Nodes Faces = Inl e"
  then show "e = IndexError" by (rule area_Inl)
next
  assume "faces_ok (length Nodes) Faces"
  then show "area Nodes Faces = Inr (area_spec Nodes Faces)"
    by (rule area_spec_ok)
next
  show "length (area_spec Nodes Faces) = length Faces"
    by simp
next
  fix k t0 t1 t2 assume k: "k < length Faces \<and> Faces ! k = (t0, t1, t2)"
  then show eq: "area_spec Nodes Faces ! k =
           np_sqrt (heron_radicand (side Nodes t0 t1) (side Nodes t1 t2) (side Nodes t2 t0))"
    by (simp add: area_spec_def heron_as_radicand)
  fix r assume "heron_radicand (side Nodes t0 t1) (side Nodes t1 t2) (side Nodes t2 t0) = Fin r \<and> r < 0"
  with eq show "area_spec Nodes Faces ! k = NaN"
    by simp
qed

theorem area_no_geometry_error_witness:
  "area [] [(0, 0, 0)] = Inl IndexError \<and>
   area sliver_nodes [(0, 1, 2)] = Inr (area_spec sliver_nodes [(0, 1, 2)]) \<and>
   area_spec sliver_nodes [(0, 1, 2)] ! 0 = NaN \<and>
   area sliver_nodes [(0, 1, 2)] = Inr [NaN]"
proof -
  have raised: "area [] [(0, 0, 0)] = Inl IndexError"
    by (simp add: area_def triangle_area_def nth_err_def)
  have ok: "faces_ok (length sliver_nodes) [(0, 1, 2)]"
    by (simp add: faces_ok_def sliver_nodes_def)
  have neg: "- (7312934410831837 / 39614081257132168796771975168) < (0::real)"
    by simp
  from area_no_geometry_error [where Nodes = sliver_nodes and Faces = "[(0, 1, 2)]"] ok
  have a: "area sliver_nodes [(0, 1, 2)] = Inr (area_spec sliver_nodes [(0, 1, 2)])"
    and "\<forall>k t0 t1 t2. k < length [(0::nat, 1::nat, 2::nat)] \<and> [(0, 1, 2)] ! k = (t0, t1, t2) \<longrightarrow>
         (\<forall>r. heron_radicand (side sliver_nodes t0 t1) (side sliver_nodes t1 t2) (side sliver_nodes t2 t0) = Fin r \<and> r < 0 \<longrightarrow>
            area_spec sliver_nodes [(0, 1, 2)] ! k = NaN)"
    by blast+
  with sliver_radicand neg have b: "area_spec sliver_nodes [(0, 1, 2)] ! 0 = NaN"
    by (metis length_Cons less_Suc_eq_0_disj nth_Cons_0)
  have "area_spec sliver_nodes [(0, 1, 2)] = [area_spec sliver_nodes [(0, 1, 2)] ! 0]"
    by (simp add: area_spec_def)
  with a b have "area sliver_nodes [(0, 1, 2)] = Inr [NaN]"
    by simp
  with raised a b show ?thesis
    using area_no_geometry_error [where Nodes = "[]" and Faces = "[(0, 0, 0)]" and e = IndexError]
    by simp
qed

text \<open>
  C8, as stated, fails. On the collinear points \<open>(0,0,0)\<close>, \<open>(1,1,1)\<close>, \<open>(5,5,5)\<close> the index
  order \<open>(0, 1, 2)\<close> gives NaN and the order \<open>(0, 2, 1)\<close> gives 0; and the triangle
  \<open>(0,0,0)\<close>, \<open>(67108868, 2, 8193)\<close>, \<open>(201326604, 6, 24579)\<close> has the area 0 where its
  image under the rotation \<open>(x, y, z) \<mapsto> (y, z, x)\<close> has NaN.
\<close>

theorem area_order_dependent:
  "triangle_area sliver_nodes (0, 1, 2) = Inr NaN \<and>
   triangle_area sliver_nodes (0, 2, 1) = Inr (Fin 0) \<and>
   rotation axis_cycle \<and>
   area needle_nodes [(0, 1, 2)] = Inr [Fin 0] \<and>
   area (map (mat_vec axis_cycle) needle_nodes) [(0, 1, 2)] = Inr [NaN]"
proof -
  have "area needle_nodes [(0, 1, 2)] = Inr [Fin 0]"
    unfolding area_mapM by (simp only: mapM_err.simps bind_err.simps needle_area)
  moreover have "area (map (mat_vec axis_cycle) needle_nodes) [(0, 1, 2)] = Inr [NaN]"
    unfolding area_mapM needle_turned
    by (simp only: mapM_err.simps bind_err.simps needle_turned_area)
  ultimately show ?thesis
    using sliver_012 sliver_021 rotation_axis_cycle by simp
qed

lemma side_translation: "i < length Nodes \<Longrightarrow> j < length Nodes \<Longrightarrow> side (map (vadd d) Nodes) i j = side Nodes i j"
  by (simp add: side_def vsub_vadd)

lemma demo_side_2_3: "side demo_nodes 2 3 = Fin 5"
proof -
  have "side demo_nodes 2 3 = linalg_norm (vsub ((- 3), 0, 0) (0, (- 4), 0))"
    by (simp add: side_def demo_nodes_def)
  also have "\<dots> = Fin 5"
    by (simp only: vsub_def linalg_norm_def Let_def prod.case fl_steps)
  finally show ?thesis .
qed

lemma demo_side_3_4: "side demo_nodes 3 4 = Fin 4"
proof -
  have "side demo_nodes 3 4 = linalg_norm (vsub (0, (- 4), 0) (0, 0, 0))"
    by (simp add: side_def demo_nodes_def)
  also have "\<dots> = Fin 4"
    by (simp only: vsub_def linalg_norm_def Let_def prod.case fl_steps)
  finally show ?thesis .
qed

lemma demo_side_4_2: "side demo_nodes 4 2 = Fin 3"
proof -
  have "side demo_nodes 4 2 = linalg_norm (vsub (0, 0, 0) ((- 3), 0, 0))"
    by (simp add: side_def demo_nodes_def)
  also have "\<dots> = Fin 3"
    by (simp only: vsub_def linalg_norm_def Let_def prod.case fl_steps)
  finally show ?thesis .
qed

text \<open>
  C8, amended: the areas do not change when one translation is applied to every vertex
  exactly, that is, when every translated coordinate is the exact sum. The area of a triangle is Heron's formula, evaluated from the left in float64, on the
  three computed distances in the order \<open>d(ta,tb)\<close>, \<open>d(tb,tc)\<close>, \<open>d(tc,ta)\<close>, where
  \<open>d(i,j) = d(j,i)\<close>: another order of the indices hands the same three distances over in
  another order, and coordinates with the same three computed distances give the same
  area. Neither a permutation of the indices nor a rotation leaves the area unchanged
  in general.
\<close>

theorem area_invariance:
  "area (map (vadd d) Nodes) Faces = area Nodes Faces \<and>
   side Nodes j i = side Nodes i j \<and>
   (ta < length Nodes \<and> tb < length Nodes \<and> tc < length Nodes \<longrightarrow>
      triangle_area Nodes (ta, tb, tc) =
        Inr (heron (side Nodes ta tb) (side Nodes tb tc) (side Nodes tc ta)) \<and>
      triangle_area Nodes (tb, tc, ta) =
        Inr (heron (side Nodes tb tc) (side Nodes tc ta) (side Nodes ta tb)) \<and>
      triangle_area Nodes (tb, ta, tc) =
        Inr (heron (side Nodes ta tb) (side Nodes tc ta) (side Nodes tb tc)) \<and>
      (length Nodes' = length Nodes \<and>
       side Nodes' ta tb = side Nodes ta tb \<and>
       side Nodes' tb tc = side Nodes tb tc \<and>
       side Nodes' tc ta = side Nodes tc ta \<longrightarrow>
         triangle_area Nodes' (ta, tb, tc) = triangle_area Nodes (ta, tb, tc)))"
proof (intro conjI impI)
  show "area (map (vadd d) Nodes) Faces = area Nodes Faces"
    by (rule area_translation)
  show "side Nodes j i = side Nodes i j"
    by (rule side_commute)
next
  assume r: "ta < length Nodes \<and> tb < length Nodes \<and> tc < length Nodes"
  then show "triangle_area Nodes (ta, tb, tc) =
        Inr (heron (side Nodes ta tb) (side Nodes tb tc) (side Nodes tc ta))"
    by (simp add: triangle_area_in_range)
  from r show "triangle_area Nodes (tb, tc, ta) =
        Inr (heron (side Nodes tb tc) (side Nodes tc ta) (side Nodes ta tb))"
    by (simp add: triangle_area_in_range)
  from r show "triangle_area Nodes (tb, ta, tc) =
        Inr (heron (side Nodes ta tb) (side Nodes tc ta) (side Nodes tb tc))"
    by (simp add: triangle_area_in_range side_commute [of Nodes tb ta]
        side_commute [of Nodes ta tc] side_commute [of Nodes tc tb])
  assume "length Nodes' = length Nodes \<and>
       side Nodes' ta tb = side Nodes ta tb \<and>
       side Nodes' tb tc = side Nodes tb tc \<and>
       side Nodes' tc ta = side Nodes tc ta"
  with r show "triangle_area Nodes' (ta, tb, tc) = triangle_area Nodes (ta, tb, tc)"
    by (simp add: triangle_area_in_range)
qed

theorem area_invariance_witness:
  "area (map (vadd (10, 20, 30)) demo_nodes) demo_faces = Inr demo_areas \<and>
   side demo_nodes 3 2 = Fin 5 \<and>
   side demo_nodes 2 3 = Fin 5 \<and>
   triangle_area demo_nodes (2, 3, 4) = Inr (heron (Fin 5) (Fin 4) (Fin 3)) \<and>
   triangle_area demo_nodes (3, 4, 2) = Inr (heron (Fin 4) (Fin 3) (Fin 5)) \<and>
   triangle_area demo_nodes (3, 2, 4) = Inr (heron (Fin 5) (Fin 3) (Fin 4)) \<and>
   triangle_area (map (vadd (10, 20, 30)) demo_nodes) (2, 3, 4) = Inr (Fin 6)"
  using area_invariance [where d = "(10, 20, 30)" and Nodes = demo_nodes and Faces = demo_faces
      and j = 3 and i = 2 and ta = 2 and tb = 3 and tc = 4
      and Nodes' = "map (vadd (10, 20, 30)) demo_nodes"]
    side_translation [of 2 demo_nodes 3 "(10, 20, 30)"]
    side_translation [of 3 demo_nodes 4 "(10, 20, 30)"]
    side_translation [of 4 demo_nodes 2 "(10, 20, 30)"]
  by (simp add: demo_area demo_triangle_2 demo_side_2_3 demo_side_3_4 demo_side_4_2
      length_demo_nodes)

end
